theory Spec2Isabelle
  imports Main "HOL-Library.Word"
begin

unbundle bit_operations_syntax

section \<open>The cooked-read line editor (src/host/readDataCooked.cpp)\<close>

text \<open>
  A shallow embedding of \<^verbatim>\<open>COOKED_READ_DATA\<close>. The edit buffer is a
  \<^verbatim>\<open>std::wstring\<close>: a list of UTF-16 code units. Indices and sizes
  (\<^verbatim>\<open>size_t\<close>) are natural numbers, coordinates (\<^verbatim>\<open>til::CoordType\<close>) and
  history indices are integers. The collaborators whose code is not part of
  readDataCooked.cpp (the command history, the screen buffer, the grapheme and
  delimiter tables, the alias table, the input queue) are parameters of the model.
\<close>

subsection \<open>Code units, strings and the std::wstring operations used\<close>

type_synonym wchar = "16 word"
type_synonym wstring = "wchar list"
type_synonym point = "int \<times> int"
type_synonym rect = "int \<times> int \<times> int \<times> int"

datatype error =
    OutOfRange
  | InvalidArgument
  | NullPointer
  | Diverged
  | InputFailure int

definition UNICODE_BACKSPACE :: wchar where "UNICODE_BACKSPACE = 0x08"
definition UNICODE_LINEFEED :: wchar where "UNICODE_LINEFEED = 0x0A"
definition UNICODE_CARRIAGERETURN :: wchar where "UNICODE_CARRIAGERETURN = 0x0D"
definition UNICODE_SPACE :: wchar where "UNICODE_SPACE = 0x20"
definition EXTKEY_ERASE_PREV_WORD :: wchar where "EXTKEY_ERASE_PREV_WORD = 0x7F"

text \<open>\<^verbatim>\<open>a - b\<close> on \<^verbatim>\<open>size_t\<close>: it wraps around below zero.\<close>

definition size_sub :: "nat \<Rightarrow> nat \<Rightarrow> nat" where
  "size_sub a b = (if b \<le> a then a - b else a + 2 ^ 64 - b)"

text \<open>
  \<^verbatim>\<open>insert(pos, 1, ch)\<close>, \<^verbatim>\<open>erase(pos, n)\<close>, \<^verbatim>\<open>replace(pos, n, str)\<close> and
  \<^verbatim>\<open>substr(pos, n)\<close> throw \<^verbatim>\<open>std::out_of_range\<close> when \<^verbatim>\<open>pos > size()\<close>
  and clip \<open>n\<close> to the rest of the string.
\<close>

definition wstring_insert :: "wstring \<Rightarrow> nat \<Rightarrow> wchar \<Rightarrow> error + wstring" where
  "wstring_insert b pos ch =
     (if pos > length b then Inl OutOfRange else Inr (take pos b @ [ch] @ drop pos b))"

definition wstring_erase :: "wstring \<Rightarrow> nat \<Rightarrow> nat \<Rightarrow> error + wstring" where
  "wstring_erase b pos n =
     (if pos > length b then Inl OutOfRange else Inr (take pos b @ drop (pos + n) b))"

definition wstring_replace :: "wstring \<Rightarrow> nat \<Rightarrow> nat \<Rightarrow> wstring \<Rightarrow> error + wstring" where
  "wstring_replace b pos n str =
     (if pos > length b then Inl OutOfRange else Inr (take pos b @ str @ drop (pos + n) b))"

definition wstring_substr :: "wstring \<Rightarrow> nat \<Rightarrow> nat \<Rightarrow> error + wstring" where
  "wstring_substr s pos n =
     (if pos > length s then Inl OutOfRange else Inr (take n (drop pos s)))"

text \<open>\<^verbatim>\<open>find(ch, pos)\<close>: the first index \<open>\<ge> pos\<close> holding \<open>ch\<close>; \<open>None\<close> is \<^verbatim>\<open>npos\<close>.\<close>

fun find_from :: "wstring \<Rightarrow> wchar \<Rightarrow> nat \<Rightarrow> nat option" where
  "find_from [] ch i = None"
| "find_from (c # cs) ch i = (if c = ch then Some i else find_from cs ch (Suc i))"

definition wstring_find :: "wstring \<Rightarrow> wchar \<Rightarrow> nat \<Rightarrow> nat option" where
  "wstring_find s ch pos = find_from (drop pos s) ch pos"

subsection \<open>Word-wise motion: \<^verbatim>\<open>_wordPrev\<close> and \<^verbatim>\<open>_wordNext\<close>\<close>

text \<open>
  \<^verbatim>\<open>DelimiterClass\<close> is declared outside readDataCooked.cpp: the two functions take
  it as the parameter \<open>DC\<close>. The callers pass \<open>position \<le> chars.size()\<close>.
\<close>

text \<open>\<^verbatim>\<open>while (position != 0 && chars[position] == L' ') --position;\<close>\<close>

fun skip_space_back :: "wstring \<Rightarrow> nat \<Rightarrow> nat" where
  "skip_space_back chars 0 = 0"
| "skip_space_back chars (Suc p) =
     (if chars ! Suc p = UNICODE_SPACE then skip_space_back chars p else Suc p)"

text \<open>\<^verbatim>\<open>while (position != 0 && DelimiterClass(chars[position - 1]) == dc) --position;\<close>\<close>

fun skip_class_back :: "(wchar \<Rightarrow> 'c) \<Rightarrow> wstring \<Rightarrow> 'c \<Rightarrow> nat \<Rightarrow> nat" where
  "skip_class_back DC chars dc 0 = 0"
| "skip_class_back DC chars dc (Suc p) =
     (if DC (chars ! p) = dc then skip_class_back DC chars dc p else Suc p)"

definition wordPrev :: "(wchar \<Rightarrow> 'c) \<Rightarrow> wstring \<Rightarrow> nat \<Rightarrow> nat" where
  "wordPrev DC chars position =
     (if position \<noteq> 0 then
        (let p1 = skip_space_back chars (position - 1);
             dc = DC (chars ! p1)
         in skip_class_back DC chars dc p1)
      else position)"

text \<open>
  \<^verbatim>\<open>while (position != chars.size() && P(chars[position])) ++position;\<close>
  The loop is entered with \<open>position \<le> chars.size()\<close> only, where \<^verbatim>\<open>!=\<close> and
  \<open><\<close> agree.
\<close>

function skip_fwd :: "(wchar \<Rightarrow> bool) \<Rightarrow> wstring \<Rightarrow> nat \<Rightarrow> nat" where
  "skip_fwd P chars position =
     (if position < length chars \<and> P (chars ! position)
      then skip_fwd P chars (Suc position) else position)"
  by pat_completeness auto
termination
  by (relation "measure (\<lambda>(P, chars, position). length chars - position)") auto

declare skip_fwd.simps [simp del]

definition wordNext :: "(wchar \<Rightarrow> 'c) \<Rightarrow> wstring \<Rightarrow> nat \<Rightarrow> nat" where
  "wordNext DC chars position =
     (if position < length chars then
        (let p0 = position + 1;
             dc = DC (chars ! (p0 - 1));
             p1 = skip_fwd (\<lambda>c. dc = DC c) chars p0
         in skip_fwd (\<lambda>c. c = UNICODE_SPACE) chars p1)
      else position)"

text \<open>
  Modelled from the spec: \<^verbatim>\<open>DelimiterClass\<close> (its table is not in the sources).
  Space is U+0020 only; Word is letters, digits, underscore and everything above
  the ASCII punctuation band; Other is everything else. Used to evaluate the
  model at concrete inputs.
\<close>

datatype delim_class = Space | Word | Other

definition spec_DelimiterClass :: "wchar \<Rightarrow> delim_class" where
  "spec_DelimiterClass c =
     (if c = 0x20 then Space
      else if (0x30 \<le> c \<and> c \<le> 0x39) \<or> (0x41 \<le> c \<and> c \<le> 0x5A) \<or> c = 0x5F
              \<or> (0x61 \<le> c \<and> c \<le> 0x7A) \<or> 0x7F \<le> c then Word
      else Other)"

subsection \<open>The collaborators\<close>

text \<open>
  \<^verbatim>\<open>CommandHistory\<close>: the operations the editor calls, on a history of type \<open>'h\<close>.
  Operations that move the history's own cursor or \<^verbatim>\<open>LastDisplayed\<close> return the
  new history. \<^verbatim>\<open>FindMatchingCommand\<close> returns the index it writes, or \<open>None\<close>
  for \<^verbatim>\<open>false\<close>.
\<close>

datatype SearchDirection = Previous | Next

record 'h history_ops =
  GetLastCommand :: "'h \<Rightarrow> wstring"
  AtFirstCommand :: "'h \<Rightarrow> bool"
  AtLastCommand :: "'h \<Rightarrow> bool"
  Retrieve :: "SearchDirection \<Rightarrow> 'h \<Rightarrow> wstring \<times> 'h"
  RetrieveNth :: "int \<Rightarrow> 'h \<Rightarrow> wstring \<times> 'h"
  GetNth :: "int \<Rightarrow> 'h \<Rightarrow> wstring"
  GetNumberOfCommands :: "'h \<Rightarrow> int"
  GetCommands :: "'h \<Rightarrow> wstring list"
  LastDisplayed :: "'h \<Rightarrow> int"
  FindMatchingCommand :: "wstring \<Rightarrow> int \<Rightarrow> 'h \<Rightarrow> int option"
  Empty :: "'h \<Rightarrow> 'h"
  OrFlags :: "32 word \<Rightarrow> 'h \<Rightarrow> 'h"
  Remove :: "int \<Rightarrow> 'h \<Rightarrow> 'h"
  Swap :: "int \<Rightarrow> int \<Rightarrow> 'h \<Rightarrow> 'h"
  Add :: "wstring \<Rightarrow> bool \<Rightarrow> 'h \<Rightarrow> 'h"

text \<open>
  The screen buffer, its text buffer and cursor, and the console globals, as one
  state of type \<open>'s\<close>. A point is \<open>(x, y)\<close>, a size \<open>(width, height)\<close>, a rectangle
  \<open>(left, top, right, bottom)\<close>, a cell a \<^verbatim>\<open>CHAR_INFO\<close>.
  \<^verbatim>\<open>WriteCharsLegacy\<close> returns the scroll amount it reports and the new state;
  \<^verbatim>\<open>ReadConsoleOutput\<close> returns \<open>None\<close> for a failed \<^verbatim>\<open>HRESULT\<close>, and otherwise
  the cells it writes into the span it is given and the rectangle it read;
  \<^verbatim>\<open>RowWrite\<close> is
  \<^verbatim>\<open>TextBuffer::Write(row, attributes, state)\<close> with a flag for inverted attributes.
  The drawing primitives are taken as total.
\<close>

type_synonym cell = "wchar \<times> 16 word"

datatype resource_id = ID_CONSOLE_MSGCMDLINEF2 | ID_CONSOLE_MSGCMDLINEF4 | ID_CONSOLE_MSGCMDLINEF9

record 's screen_ops =
  WriteCharsLegacy :: "wstring \<Rightarrow> 's \<Rightarrow> int \<times> 's"
  CursorPosition :: "'s \<Rightarrow> point"
  Dimensions :: "'s \<Rightarrow> int \<times> int"
  SetCursorPosition :: "point \<Rightarrow> 's \<Rightarrow> 's"
  MakeCursorVisible :: "point \<Rightarrow> 's \<Rightarrow> 's"
  NavigateCursor :: "point \<Rightarrow> int \<Rightarrow> 's \<Rightarrow> point"
  GetViewport :: "'s \<Rightarrow> point \<times> (int \<times> int)"
  ReadConsoleOutput :: "rect \<Rightarrow> 's \<Rightarrow> (cell list \<times> rect) option"
  WriteConsoleOutput :: "cell list \<Rightarrow> rect \<Rightarrow> 's \<Rightarrow> 's"
  RowWrite :: "int \<Rightarrow> bool \<Rightarrow> wstring \<Rightarrow> int \<Rightarrow> int \<Rightarrow> 's \<Rightarrow> 's"
  SetIsPopupShown :: "bool \<Rightarrow> 's \<Rightarrow> 's"
  SetCursorDBMode :: "bool \<Rightarrow> 's \<Rightarrow> 's"
  GetInsertMode :: "'s \<Rightarrow> bool"
  SignalTextChanged :: "'s \<Rightarrow> 's"
  ClearCmdExeAliases :: "'s \<Rightarrow> 's"
  SetIgnoreNextKeyup :: "'s \<Rightarrow> 's"
  LoadString :: "resource_id \<Rightarrow> wstring"

record ('h, 's) env =
  hist :: "'h history_ops"
  scr :: "'s screen_ops"
  GraphemeNext :: "wstring \<Rightarrow> nat \<Rightarrow> nat"
  GraphemePrev :: "wstring \<Rightarrow> nat \<Rightarrow> nat"
  DelimiterClass :: "wchar \<Rightarrow> delim_class"

subsection \<open>The editor state\<close>

datatype PopupKind = CopyToChar | CopyFromChar | CommandNumber | CommandList

definition CommandNumberMaxInputLength :: nat where
  "CommandNumberMaxInputLength = 5"

text \<open>
  \<^verbatim>\<open>Popup\<close>: the shared header and both payloads of the union
  (\<open>cn_\<close>: \<^verbatim>\<open>commandNumber\<close>, \<open>cl_\<close>: \<^verbatim>\<open>commandList\<close>). The stack \<^verbatim>\<open>_popups\<close> is a
  vector: its top is the last element.
\<close>

record popup =
  kind :: PopupKind
  contentRect :: rect
  backupRect :: rect
  backup :: "cell list"
  cn_buffer :: wstring
  cn_bufferSize :: nat
  cl_selected :: int
  cl_top :: int
  cl_dirtyHeight :: int

record ('h, 's) cooked =
  buffer :: wstring
  bufferCursor :: nat
  bufferDirty :: bool
  insertMode :: bool
  controlKeyState :: "32 word"
  distanceCursor :: int
  distanceEnd :: int
  popups :: "popup list"
  history :: "'h option"
  screenInfo :: 's
  ctrlWakeupMask :: "32 word"
  InputMode :: "32 word"

definition ENABLE_PROCESSED_INPUT :: "32 word" where "ENABLE_PROCESSED_INPUT = 0x0001"
definition ENABLE_ECHO_INPUT :: "32 word" where "ENABLE_ECHO_INPUT = 0x0004"
definition RIGHT_ALT_PRESSED :: "32 word" where "RIGHT_ALT_PRESSED = 0x0001"
definition LEFT_ALT_PRESSED :: "32 word" where "LEFT_ALT_PRESSED = 0x0002"
definition RIGHT_CTRL_PRESSED :: "32 word" where "RIGHT_CTRL_PRESSED = 0x0004"
definition LEFT_CTRL_PRESSED :: "32 word" where "LEFT_CTRL_PRESSED = 0x0008"
definition SHIFT_PRESSED :: "32 word" where "SHIFT_PRESSED = 0x0010"
definition CLE_ALLOCATED :: "32 word" where "CLE_ALLOCATED = 0x0001"
definition INT_MAX :: int where "INT_MAX = 2147483647"

definition VK_ESCAPE :: wchar where "VK_ESCAPE = 0x1B"
definition VK_PRIOR :: wchar where "VK_PRIOR = 0x21"
definition VK_NEXT :: wchar where "VK_NEXT = 0x22"
definition VK_END :: wchar where "VK_END = 0x23"
definition VK_HOME :: wchar where "VK_HOME = 0x24"
definition VK_LEFT :: wchar where "VK_LEFT = 0x25"
definition VK_UP :: wchar where "VK_UP = 0x26"
definition VK_RIGHT :: wchar where "VK_RIGHT = 0x27"
definition VK_DOWN :: wchar where "VK_DOWN = 0x28"
definition VK_INSERT :: wchar where "VK_INSERT = 0x2D"
definition VK_DELETE :: wchar where "VK_DELETE = 0x2E"
definition VK_F1 :: wchar where "VK_F1 = 0x70"
definition VK_F2 :: wchar where "VK_F2 = 0x71"
definition VK_F3 :: wchar where "VK_F3 = 0x72"
definition VK_F4 :: wchar where "VK_F4 = 0x73"
definition VK_F5 :: wchar where "VK_F5 = 0x74"
definition VK_F6 :: wchar where "VK_F6 = 0x75"
definition VK_F7 :: wchar where "VK_F7 = 0x76"
definition VK_F8 :: wchar where "VK_F8 = 0x77"
definition VK_F9 :: wchar where "VK_F9 = 0x78"
definition VK_F10 :: wchar where "VK_F10 = 0x79"

text \<open>\<^verbatim>\<open>WI_IsFlagSet\<close> and \<^verbatim>\<open>WI_IsAnyFlagSet\<close>.\<close>

definition IsFlagSet :: "32 word \<Rightarrow> 32 word \<Rightarrow> bool" where
  "IsFlagSet v flag = (v AND flag = flag)"

definition IsAnyFlagSet :: "32 word \<Rightarrow> 32 word \<Rightarrow> bool" where
  "IsAnyFlagSet v flags = (v AND flags \<noteq> 0)"

definition processedInput :: "('h, 's) cooked \<Rightarrow> bool" where
  "processedInput s = IsFlagSet (InputMode s) ENABLE_PROCESSED_INPUT"

definition echoInput :: "('h, 's) cooked \<Rightarrow> bool" where
  "echoInput s = IsFlagSet (InputMode s) ENABLE_ECHO_INPUT"

definition newlineSuffix :: "('h, 's) cooked \<Rightarrow> wstring" where
  "newlineSuffix s =
     (if processedInput s then [UNICODE_CARRIAGERETURN, UNICODE_LINEFEED]
      else [UNICODE_CARRIAGERETURN])"

definition markAsDirty :: "('h, 's) cooked \<Rightarrow> ('h, 's) cooked" where
  "markAsDirty s = s\<lparr>bufferDirty := True\<rparr>"

subsection \<open>The echo: \<^verbatim>\<open>_writeChars\<close>, \<^verbatim>\<open>_offsetPosition\<close>, \<^verbatim>\<open>_unwindCursorPosition\<close>,
  \<^verbatim>\<open>_erase\<close>, \<^verbatim>\<open>_flushBuffer\<close>\<close>

definition writeChars :: "('h, 's) env \<Rightarrow> wstring \<Rightarrow> 's \<Rightarrow> int \<times> 's" where
  "writeChars env text sc =
     (if text = [] then (0, sc)
      else
        (let width = fst (Dimensions (scr env) sc);
             initialCursorPos = CursorPosition (scr env) sc;
             (scrollY, sc') = WriteCharsLegacy (scr env) text sc;
             finalCursorPos = CursorPosition (scr env) sc'
         in ((snd finalCursorPos - snd initialCursorPos + scrollY) * width
               + fst finalCursorPos - fst initialCursorPos, sc')))"

text \<open>The offset is not negative after the clamp, where \<^verbatim>\<open>%\<close> and \<^verbatim>\<open>/\<close> are \<open>mod\<close> and \<open>div\<close>.\<close>

definition offsetPosition :: "('h, 's) env \<Rightarrow> 's \<Rightarrow> point \<Rightarrow> int \<Rightarrow> point" where
  "offsetPosition env sc pos distance =
     (let w = fst (Dimensions (scr env) sc);
          h = snd (Dimensions (scr env) sc);
          area = w * h;
          off0 = w * snd pos + fst pos + distance;
          off = (if off0 < 0 then 0 else if off0 > area then area else off0)
      in (off mod w, off div w))"

definition unwindCursorPosition :: "('h, 's) env \<Rightarrow> int \<Rightarrow> 's \<Rightarrow> 's" where
  "unwindCursorPosition env distance sc =
     (if distance \<le> 0 then sc
      else
        (let pos = offsetPosition env sc (CursorPosition (scr env) sc) (- distance)
         in MakeCursorVisible (scr env) pos (SetCursorPosition (scr env) pos sc)))"

definition erase :: "('h, 's) env \<Rightarrow> int \<Rightarrow> 's \<Rightarrow> 's" where
  "erase env distance sc =
     (if distance > 0 then snd (writeChars env (replicate (nat distance) UNICODE_SPACE) sc)
      else sc)"

definition flushBuffer :: "('h, 's) env \<Rightarrow> ('h, 's) cooked \<Rightarrow> ('h, 's) cooked" where
  "flushBuffer env s0 =
     (let s = s0\<lparr>bufferCursor := min (bufferCursor s0) (length (buffer s0))\<rparr>
      in if \<not> bufferDirty s then s
         else if echoInput s then
           (let sc1 = unwindCursorPosition env (distanceCursor s) (screenInfo s);
                (distanceBeforeCursor, sc2) = writeChars env (take (bufferCursor s) (buffer s)) sc1;
                (distanceAfterCursor, sc3) = writeChars env (drop (bufferCursor s) (buffer s)) sc2;
                distanceEnd' = distanceBeforeCursor + distanceAfterCursor;
                eraseDistance = max 0 (distanceEnd s - distanceEnd');
                sc4 = erase env eraseDistance sc3;
                sc5 = unwindCursorPosition env (distanceAfterCursor + eraseDistance) sc4
            in s\<lparr>screenInfo := sc5, distanceCursor := distanceBeforeCursor,
                 distanceEnd := distanceEnd', bufferDirty := False\<rparr>)
         else s\<lparr>bufferDirty := False\<rparr>)"

definition replaceBuffer :: "wstring \<Rightarrow> ('h, 's) cooked \<Rightarrow> ('h, 's) cooked" where
  "replaceBuffer str s = s\<lparr>buffer := str, bufferCursor := length str, bufferDirty := True\<rparr>"


subsection \<open>Popups: \<^verbatim>\<open>_popupsDone\<close>, \<^verbatim>\<open>_popupDrawPrompt\<close>, \<^verbatim>\<open>_popupDrawCommandList\<close>,
  \<^verbatim>\<open>_popupPush\<close>\<close>

definition integerLog10 :: "int \<Rightarrow> int" where
  "integerLog10 v =
     (if v \<ge> 1000000000 then 9 else if v \<ge> 100000000 then 8 else if v \<ge> 10000000 then 7
      else if v \<ge> 1000000 then 6 else if v \<ge> 100000 then 5 else if v \<ge> 10000 then 4
      else if v \<ge> 1000 then 3 else if v \<ge> 100 then 2 else if v \<ge> 10 then 1 else 0)"

text \<open>\<^verbatim>\<open>std::clamp(v, lo, hi)\<close>.\<close>

definition clamp :: "int \<Rightarrow> int \<Rightarrow> int \<Rightarrow> int" where
  "clamp v lo hi = (if v < lo then lo else if hi < v then hi else v)"

text \<open>\<^verbatim>\<open>std::to_wstring\<close> of an integer: its decimal digits.\<close>

fun digits_of :: "nat \<Rightarrow> wstring" where
  "digits_of n = (if n < 10 then [0x30 + of_nat n] else digits_of (n div 10) @ [0x30 + of_nat (n mod 10)])"

declare digits_of.simps [simp del]

definition to_wstring :: "int \<Rightarrow> wstring" where
  "to_wstring i = (if i < 0 then 0x2D # digits_of (nat (- i)) else digits_of (nat i))"

text \<open>
  One iteration of the loop of \<^verbatim>\<open>_popupsDone\<close>: restore what is under the topmost
  popup (unless its backup is empty) and pop it.
\<close>

definition restorePopup :: "('h, 's) env \<Rightarrow> popup \<Rightarrow> 's \<Rightarrow> 's" where
  "restorePopup env p sc =
     (if backup p \<noteq> [] then WriteConsoleOutput (scr env) (backup p) (backupRect p) sc else sc)"

definition popupsDone :: "('h, 's) env \<Rightarrow> ('h, 's) cooked \<Rightarrow> ('h, 's) cooked" where
  "popupsDone env s =
     s\<lparr>popups := [],
       screenInfo := SetIsPopupShown (scr env) False
                       (foldl (\<lambda>sc p. restorePopup env p sc) (screenInfo s) (rev (popups s)))\<rparr>"

definition popupDrawPrompt :: "('h, 's) env \<Rightarrow> popup \<Rightarrow> resource_id \<Rightarrow> 's \<Rightarrow> 's" where
  "popupDrawPrompt env p rid sc =
     (case contentRect p of (left, ytop, right, ybottom) \<Rightarrow>
        RowWrite (scr env) ytop False (LoadString (scr env) rid) left right sc)"

definition popupDrawCommandList :: "('h, 's) env \<Rightarrow> 'h \<Rightarrow> popup \<Rightarrow> 's \<Rightarrow> popup \<times> 's" where
  "popupDrawCommandList env h p sc =
     (case contentRect p of (left, ytop, right, ybottom) \<Rightarrow>
        (let maxc = GetNumberOfCommands (hist env) h;
             width = nat (right - left);
             height = min (ybottom - ytop) (GetNumberOfCommands (hist env) h);
             dirtyHeight = max height (cl_dirtyHeight p);
             selected = clamp (cl_selected p) 0 (maxc - 1);
             top1 = (if selected < cl_top p then selected
                     else if selected \<ge> cl_top p + height then selected - height + 1
                     else cl_top p);
             top2 = clamp top1 0 (maxc - height);
             drawRow = (\<lambda>sc' off.
                (let y = ytop + off;
                     historyIndex = top2 + off;
                     str = GetNth (hist env) historyIndex h;
                     line = (if str \<noteq> [] then to_wstring historyIndex @ [0x3A, 0x20] @ str else [])
                            @ replicate width UNICODE_SPACE
                 in RowWrite (scr env) y (historyIndex = selected) line left right sc'))
         in (p\<lparr>cl_selected := selected, cl_top := top2, cl_dirtyHeight := height\<rparr>,
             foldl drawRow sc [0 .. dirtyHeight - 1])))"

text \<open>The border of a popup: the three kinds of row of \<^verbatim>\<open>_popupPush\<close>.\<close>

definition borderRow :: "nat \<Rightarrow> wchar \<Rightarrow> wchar \<Rightarrow> wchar \<Rightarrow> wstring" where
  "borderRow w front fill back = (replicate w fill)[0 := front, w - 1 := back]"

definition drawBorder :: "('h, 's) env \<Rightarrow> rect \<Rightarrow> nat \<Rightarrow> 's \<Rightarrow> 's" where
  "drawBorder env r widthSizeT sc =
     (case r of (left, ytop, right, ybottom) \<Rightarrow>
        (let sc1 = RowWrite (scr env) (ytop - 1) False (borderRow widthSizeT 0x250C 0x2500 0x2510)
                     (left - 1) (right + 1) sc;
             sc2 = RowWrite (scr env) ybottom False (borderRow widthSizeT 0x2514 0x2500 0x2518)
                     (left - 1) (right + 1) sc1
         in foldl (\<lambda>sc' y. RowWrite (scr env) y False (borderRow widthSizeT 0x2502 0x20 0x2502)
                              (left - 1) (right + 1) sc')
              sc2 [ytop .. ybottom - 1]))"

text \<open>
  The size a popup proposes. \<^verbatim>\<open>CommandList\<close> reads the history through
  \<^verbatim>\<open>_history\<close>, a null pointer when the process has no history.
\<close>

definition proposedSize :: "('h, 's) env \<Rightarrow> PopupKind \<Rightarrow> 'h option \<Rightarrow> error + (int \<times> int)" where
  "proposedSize env k ho =
     (case k of
        CopyToChar \<Rightarrow> Inr (26, 1)
      | CopyFromChar \<Rightarrow> Inr (28, 1)
      | CommandNumber \<Rightarrow> Inr (22 + int CommandNumberMaxInputLength, 1)
      | CommandList \<Rightarrow>
          (case ho of
             None \<Rightarrow> Inl NullPointer
           | Some h \<Rightarrow>
               (let commandCount = GetNumberOfCommands (hist env) h;
                    maxStringLength = foldl (\<lambda>m c. max m (length c)) 0 (GetCommands (hist env) h);
                    maxStringLength' = int maxStringLength
                                         + integerLog10 (commandCount mod 2 ^ 32) + 3
                in Inr (clamp maxStringLength' 40 INT_MAX, clamp commandCount 10 20))))"

text \<open>
  The part of \<^verbatim>\<open>_popupPush\<close> inside \<^verbatim>\<open>try\<close>, from \<^verbatim>\<open>emplace_back\<close> on. The
  result \<open>(False, s)\<close> is the state in which \<^verbatim>\<open>THROW_IF_FAILED\<close> throws, \<open>(True, s)\<close>
  the state at the end of the block. The backup is the vector of
  \<open>widthSizeT * heightSizeT\<close> cells made by \<^verbatim>\<open>emplace_back\<close>; the read fills it in
  place, from its first cell on, and does not change its size.
\<close>

definition popupInit ::
  "('h, 's) env \<Rightarrow> PopupKind \<Rightarrow> rect \<Rightarrow> rect \<Rightarrow> nat \<Rightarrow> nat \<Rightarrow> ('h, 's) cooked
     \<Rightarrow> error + (bool \<times> ('h, 's) cooked)" where
  "popupInit env k cRect bRect widthSizeT heightSizeT s0 =
     (let p0 = \<lparr>kind = k, contentRect = cRect, backupRect = bRect,
                 backup = replicate (widthSizeT * heightSizeT) (0, 0),
                 cn_buffer = replicate (CommandNumberMaxInputLength + 1) 0, cn_bufferSize = 0,
                 cl_selected = 0, cl_top = 0, cl_dirtyHeight = 0\<rparr>;
          s1 = flushBuffer env (s0\<lparr>popups := popups s0 @ [p0]\<rparr>)
      in case ReadConsoleOutput (scr env) bRect (screenInfo s1) of
           None \<Rightarrow> Inr (False, s1)
         | Some (cells, readRect) \<Rightarrow>
             (let p1 = p0\<lparr>backup := take (length (backup p0)) cells
                                     @ drop (length cells) (backup p0),
                         backupRect := readRect\<rparr>;
                  sc1 = drawBorder env cRect widthSizeT (screenInfo s1);
                  r = (case k of
                         CopyToChar \<Rightarrow> Inr (p1, popupDrawPrompt env p1 ID_CONSOLE_MSGCMDLINEF2 sc1)
                       | CopyFromChar \<Rightarrow> Inr (p1, popupDrawPrompt env p1 ID_CONSOLE_MSGCMDLINEF4 sc1)
                       | CommandNumber \<Rightarrow>
                           (let p2 = p1\<lparr>cn_buffer :=
                                          replicate (CommandNumberMaxInputLength + 1) UNICODE_SPACE,
                                        cn_bufferSize := 0\<rparr>
                            in Inr (p2, popupDrawPrompt env p2 ID_CONSOLE_MSGCMDLINEF9 sc1))
                       | CommandList \<Rightarrow>
                           (case history s1 of
                              None \<Rightarrow> Inl NullPointer
                            | Some h \<Rightarrow>
                                (let sel = LastDisplayed (hist env) h;
                                     contentHeight = (case cRect of (l, t, r, b) \<Rightarrow> b - t);
                                     p2 = p1\<lparr>cl_selected := sel,
                                             cl_top := sel - contentHeight div 2\<rparr>
                                 in Inr (popupDrawCommandList env h p2 sc1))))
              in case r of
                   Inl e \<Rightarrow> Inl e
                 | Inr (p3, sc2) \<Rightarrow>
                     (let ps = butlast (popups s1) @ [p3];
                          sc3 = (if length ps = 1 then SetIsPopupShown (scr env) True sc2 else sc2)
                      in Inr (True, s1\<lparr>popups := ps, screenInfo := sc3\<rparr>))))"

definition popupPush ::
  "('h, 's) env \<Rightarrow> PopupKind \<Rightarrow> ('h, 's) cooked \<Rightarrow> error + ('h, 's) cooked" where
  "popupPush env k s =
     (case GetViewport (scr env) (screenInfo s) of
        (viewportOrigin, viewportSize) \<Rightarrow>
          (case proposedSize env k (history s) of
             Inl e \<Rightarrow> Inl e
           | Inr proposed \<Rightarrow>
               (let cw = min (fst proposed) (fst viewportSize - 2);
                    ch = min (snd proposed) (snd viewportSize - 2)
                in if \<not> (cw > 0 \<and> ch > 0) then Inr s
                   else
                     (let widthSizeT = nat (cw + 2);
                          heightSizeT = nat (ch + 2);
                          ox = (fst viewportSize - cw) div 2 + fst viewportOrigin;
                          oy = (snd viewportSize - ch) div 2 + snd viewportOrigin;
                          cRect = (ox, oy, ox + cw, oy + ch);
                          bRect = (ox - 1, oy - 1, ox + cw + 1, oy + ch + 1)
                      in case popupInit env k cRect bRect widthSizeT heightSizeT s of
                           Inl e \<Rightarrow> Inl e
                         | Inr (True, s') \<Rightarrow> Inr s'
                         | Inr (False, s') \<Rightarrow> Inr (popupsDone env s')))))"

subsection \<open>Character input: \<^verbatim>\<open>_handleChar\<close>\<close>

text \<open>
  The result is the \<^verbatim>\<open>bool\<close> the handler returns (true: the read is complete)
  and the new state, or the exception that leaves the handler.
\<close>

definition handleChar ::
  "('h, 's) env \<Rightarrow> wchar \<Rightarrow> 32 word \<Rightarrow> ('h, 's) cooked \<Rightarrow> error + (bool \<times> ('h, 's) cooked)" where
  "handleChar env wch modifiers s =
     (if ctrlWakeupMask s \<noteq> 0 \<and> wch < 0x20
         \<and> (ctrlWakeupMask s AND push_bit (unat wch) 1) \<noteq> 0 then
        (let s1 = flushBuffer env s
         in case wstring_insert (buffer s1) (bufferCursor s1) wch of
              Inl e \<Rightarrow> Inl e
            | Inr b \<Rightarrow> Inr (True, s1\<lparr>buffer := b, bufferCursor := bufferCursor s1 + 1,
                                     controlKeyState := modifiers\<rparr>))
      else if wch = UNICODE_CARRIAGERETURN then
        Inr (True, s\<lparr>buffer := buffer s @ newlineSuffix s,
                     bufferCursor := length (buffer s @ newlineSuffix s),
                     bufferDirty := True\<rparr>)
      else if (wch = EXTKEY_ERASE_PREV_WORD \<or> wch = UNICODE_BACKSPACE) \<and> processedInput s then
        (let pos = (if wch = EXTKEY_ERASE_PREV_WORD
                    then wordPrev (DelimiterClass env) (buffer s) (bufferCursor s)
                    else GraphemePrev env (buffer s) (bufferCursor s))
         in case wstring_erase (buffer s) pos (size_sub (bufferCursor s) pos) of
              Inl e \<Rightarrow> Inl e
            | Inr b \<Rightarrow> Inr (False, s\<lparr>buffer := b, bufferCursor := pos, bufferDirty := True,
                                     screenInfo := SignalTextChanged (scr env) (screenInfo s)\<rparr>))
      else
        (case (if insertMode s then wstring_insert (buffer s) (bufferCursor s) wch
               else wstring_replace (buffer s) (bufferCursor s)
                      (size_sub (GraphemeNext env (buffer s) (bufferCursor s)) (bufferCursor s))
                      [wch]) of
           Inl e \<Rightarrow> Inl e
         | Inr b \<Rightarrow> Inr (False, s\<lparr>buffer := b, bufferCursor := bufferCursor s + 1,
                                  bufferDirty := True\<rparr>)))"

subsection \<open>Editing keys: \<^verbatim>\<open>_handleVkey\<close>, one definition for each case of the switch\<close>

definition vkey_ESCAPE :: "('h, 's) cooked \<Rightarrow> ('h, 's) cooked" where
  "vkey_ESCAPE s =
     (if buffer s \<noteq> [] then s\<lparr>buffer := [], bufferCursor := 0, bufferDirty := True\<rparr> else s)"

definition vkey_HOME :: "bool \<Rightarrow> ('h, 's) cooked \<Rightarrow> ('h, 's) cooked" where
  "vkey_HOME ctrlPressed s =
     (if bufferCursor s > 0 then
        s\<lparr>buffer := (if ctrlPressed then drop (bufferCursor s) (buffer s) else buffer s),
          bufferCursor := 0, bufferDirty := True\<rparr>
      else s)"

definition vkey_END :: "bool \<Rightarrow> ('h, 's) cooked \<Rightarrow> ('h, 's) cooked" where
  "vkey_END ctrlPressed s =
     (if bufferCursor s < length (buffer s) then
        (let b = (if ctrlPressed then take (bufferCursor s) (buffer s) else buffer s)
         in s\<lparr>buffer := b, bufferCursor := length b, bufferDirty := True\<rparr>)
      else s)"

definition vkey_LEFT :: "('h, 's) env \<Rightarrow> bool \<Rightarrow> ('h, 's) cooked \<Rightarrow> ('h, 's) cooked" where
  "vkey_LEFT env ctrlPressed s =
     (if bufferCursor s \<noteq> 0 then
        s\<lparr>bufferCursor := (if ctrlPressed
                            then wordPrev (DelimiterClass env) (buffer s) (bufferCursor s)
                            else GraphemePrev env (buffer s) (bufferCursor s)),
          bufferDirty := True\<rparr>
      else s)"

text \<open>
  The loop of the \<^verbatim>\<open>VK_RIGHT\<close> case that walks the last command and the buffer
  grapheme by grapheme. It returns \<open>Some (cmdBeg, cmdEnd)\<close> when it reaches the
  \<^verbatim>\<open>append\<close>, \<open>None\<close> when it ends without one. The loop ends only if
  \<^verbatim>\<open>GraphemeNext\<close> advances; the model runs it on fuel and reports \<open>Diverged\<close> when
  the fuel runs out. The caller gives \<open>cmd.size() + 1\<close>, enough whenever
  \<^verbatim>\<open>GraphemeNext\<close> advances.
\<close>

fun pasteWalk ::
  "nat \<Rightarrow> (wstring \<Rightarrow> nat \<Rightarrow> nat) \<Rightarrow> wstring \<Rightarrow> wstring \<Rightarrow> nat \<Rightarrow> nat \<Rightarrow> error + (nat \<times> nat) option" where
  "pasteWalk 0 GN cmd buf cmdBeg bufferBeg = Inl Diverged"
| "pasteWalk (Suc fuel) GN cmd buf cmdBeg bufferBeg =
     (if cmdBeg < length cmd then
        (let cmdEnd = GN cmd cmdBeg
         in if bufferBeg \<ge> length buf then Inr (Some (cmdBeg, cmdEnd))
            else pasteWalk fuel GN cmd buf cmdEnd (GN buf bufferBeg))
      else Inr None)"

definition vkey_RIGHT ::
  "('h, 's) env \<Rightarrow> wchar \<Rightarrow> bool \<Rightarrow> ('h, 's) cooked \<Rightarrow> error + ('h, 's) cooked" where
  "vkey_RIGHT env vkey ctrlPressed s =
     (if bufferCursor s \<noteq> length (buffer s) then
        Inr (s\<lparr>bufferCursor := (if ctrlPressed \<and> vkey = VK_RIGHT
                                 then wordNext (DelimiterClass env) (buffer s) (bufferCursor s)
                                 else GraphemeNext env (buffer s) (bufferCursor s)),
               bufferDirty := True\<rparr>)
      else
        (case history s of
           None \<Rightarrow> Inr s
         | Some h \<Rightarrow>
             (let cmd = GetLastCommand (hist env) h
              in case pasteWalk (Suc (length cmd)) (GraphemeNext env) cmd (buffer s) 0 0 of
                   Inl e \<Rightarrow> Inl e
                 | Inr None \<Rightarrow> Inr s
                 | Inr (Some (cmdBeg, cmdEnd)) \<Rightarrow>
                     (case wstring_substr cmd cmdBeg (size_sub cmdEnd cmdBeg) of
                        Inl e \<Rightarrow> Inl e
                      | Inr sub \<Rightarrow>
                          Inr (s\<lparr>buffer := buffer s @ sub,
                                 bufferCursor := length (buffer s @ sub),
                                 bufferDirty := True\<rparr>)))))"

definition vkey_INSERT :: "('h, 's) env \<Rightarrow> ('h, 's) cooked \<Rightarrow> ('h, 's) cooked" where
  "vkey_INSERT env s =
     s\<lparr>insertMode := \<not> insertMode s,
       screenInfo := SetCursorDBMode (scr env)
                       ((\<not> insertMode s) \<noteq> GetInsertMode (scr env) (screenInfo s)) (screenInfo s),
       bufferDirty := True\<rparr>"

definition vkey_DELETE :: "('h, 's) env \<Rightarrow> ('h, 's) cooked \<Rightarrow> error + ('h, 's) cooked" where
  "vkey_DELETE env s =
     (if bufferCursor s < length (buffer s) then
        (case wstring_erase (buffer s) (bufferCursor s)
                (size_sub (GraphemeNext env (buffer s) (bufferCursor s)) (bufferCursor s)) of
           Inl e \<Rightarrow> Inl e
         | Inr b \<Rightarrow> Inr (s\<lparr>buffer := b, bufferDirty := True\<rparr>))
      else Inr s)"

text \<open>\<^verbatim>\<open>VK_UP\<close>, \<^verbatim>\<open>VK_F5\<close>, \<^verbatim>\<open>VK_DOWN\<close>, \<^verbatim>\<open>VK_PRIOR\<close>, \<^verbatim>\<open>VK_NEXT\<close>: replace the buffer by a
  command the history retrieves, unless the history is at that end already.\<close>

definition vkey_history ::
  "('h \<Rightarrow> bool) \<Rightarrow> ('h \<Rightarrow> wstring \<times> 'h) \<Rightarrow> ('h, 's) cooked \<Rightarrow> ('h, 's) cooked" where
  "vkey_history atEnd retrieve s =
     (case history s of
        None \<Rightarrow> s
      | Some h \<Rightarrow>
          (if \<not> atEnd h then
             (case retrieve h of (str, h') \<Rightarrow> replaceBuffer str (s\<lparr>history := Some h'\<rparr>))
           else s))"

definition vkey_F3 :: "('h, 's) env \<Rightarrow> ('h, 's) cooked \<Rightarrow> error + ('h, 's) cooked" where
  "vkey_F3 env s =
     (case history s of
        None \<Rightarrow> Inr s
      | Some h \<Rightarrow>
          (let last = GetLastCommand (hist env) h
           in if length last > bufferCursor s then
                (let count = length last - bufferCursor s
                 in case wstring_substr last (bufferCursor s) count of
                      Inl e \<Rightarrow> Inl e
                    | Inr sub \<Rightarrow>
                        (case wstring_replace (buffer s) (bufferCursor s) count sub of
                           Inl e \<Rightarrow> Inl e
                         | Inr b \<Rightarrow> Inr (s\<lparr>buffer := b, bufferCursor := bufferCursor s + count,
                                            bufferDirty := True\<rparr>)))
              else Inr s))"

definition vkey_F7 ::
  "('h, 's) env \<Rightarrow> bool \<Rightarrow> bool \<Rightarrow> ('h, 's) cooked \<Rightarrow> error + ('h, 's) cooked" where
  "vkey_F7 env ctrlPressed altPressed s =
     (if \<not> ctrlPressed \<and> \<not> altPressed then
        (case history s of
           None \<Rightarrow> Inr s
         | Some h \<Rightarrow>
             if GetNumberOfCommands (hist env) h \<noteq> 0 then popupPush env CommandList s else Inr s)
      else if altPressed then
        (case history s of
           None \<Rightarrow> Inr s
         | Some h \<Rightarrow>
             Inr (s\<lparr>history := Some (OrFlags (hist env) CLE_ALLOCATED (Empty (hist env) h))\<rparr>))
      else Inr s)"

definition vkey_F8 :: "('h, 's) env \<Rightarrow> ('h, 's) cooked \<Rightarrow> ('h, 's) cooked" where
  "vkey_F8 env s =
     (case history s of
        None \<Rightarrow> s
      | Some h \<Rightarrow>
          (let prefix = take (bufferCursor s) (buffer s)
           in case FindMatchingCommand (hist env) prefix (LastDisplayed (hist env) h) h of
                None \<Rightarrow> s
              | Some index \<Rightarrow>
                  (case RetrieveNth (hist env) index h of
                     (str, h') \<Rightarrow>
                       s\<lparr>buffer := str, bufferCursor := min (bufferCursor s) (length str),
                         bufferDirty := True, history := Some h'\<rparr>)))"

definition handleVkey ::
  "('h, 's) env \<Rightarrow> wchar \<Rightarrow> 32 word \<Rightarrow> ('h, 's) cooked \<Rightarrow> error + ('h, 's) cooked" where
  "handleVkey env vkey modifiers s =
     (let ctrlPressed = IsAnyFlagSet modifiers (LEFT_CTRL_PRESSED OR RIGHT_CTRL_PRESSED);
          altPressed = IsAnyFlagSet modifiers (LEFT_ALT_PRESSED OR RIGHT_ALT_PRESSED)
      in if vkey = VK_ESCAPE then Inr (vkey_ESCAPE s)
         else if vkey = VK_HOME then Inr (vkey_HOME ctrlPressed s)
         else if vkey = VK_END then Inr (vkey_END ctrlPressed s)
         else if vkey = VK_LEFT then Inr (vkey_LEFT env ctrlPressed s)
         else if vkey = VK_F1 \<or> vkey = VK_RIGHT then vkey_RIGHT env vkey ctrlPressed s
         else if vkey = VK_INSERT then Inr (vkey_INSERT env s)
         else if vkey = VK_DELETE then vkey_DELETE env s
         else if vkey = VK_UP \<or> vkey = VK_F5 then
           Inr (vkey_history (AtFirstCommand (hist env)) (Retrieve (hist env) Previous) s)
         else if vkey = VK_DOWN then
           Inr (vkey_history (AtLastCommand (hist env)) (Retrieve (hist env) Next) s)
         else if vkey = VK_PRIOR then
           Inr (vkey_history (AtFirstCommand (hist env)) (RetrieveNth (hist env) 0) s)
         else if vkey = VK_NEXT then
           Inr (vkey_history (AtLastCommand (hist env)) (RetrieveNth (hist env) INT_MAX) s)
         else if vkey = VK_F2 then
           (if history s \<noteq> None then popupPush env CopyToChar s else Inr s)
         else if vkey = VK_F3 then vkey_F3 env s
         else if vkey = VK_F4 then popupPush env CopyFromChar s
         else if vkey = VK_F6 then
           (case handleChar env 0x1a modifiers s of Inl e \<Rightarrow> Inl e | Inr (done, s') \<Rightarrow> Inr s')
         else if vkey = VK_F7 then vkey_F7 env ctrlPressed altPressed s
         else if vkey = VK_F8 then Inr (vkey_F8 env s)
         else if vkey = VK_F9 then
           (case history s of
              None \<Rightarrow> Inr s
            | Some h \<Rightarrow>
                if GetNumberOfCommands (hist env) h \<noteq> 0 then popupPush env CommandNumber s
                else Inr s)
         else if vkey = VK_F10 then
           Inr (if altPressed
                then s\<lparr>screenInfo := ClearCmdExeAliases (scr env) (screenInfo s)\<rparr> else s)
         else Inr s)"

subsection \<open>Popup input: \<^verbatim>\<open>_popupHandleInput\<close> and the four handlers\<close>

definition popupHandleCopyToCharInput ::
  "('h, 's) env \<Rightarrow> wchar \<Rightarrow> wchar \<Rightarrow> ('h, 's) cooked \<Rightarrow> error + ('h, 's) cooked" where
  "popupHandleCopyToCharInput env wch vkey s =
     (if vkey \<noteq> 0 then (if vkey = VK_ESCAPE then Inr (popupsDone env s) else Inr s)
      else
        (case history s of
           None \<Rightarrow> Inl NullPointer
         | Some h \<Rightarrow>
             (let cmd = GetLastCommand (hist env) h
              in case wstring_find cmd wch (bufferCursor s) of
                   None \<Rightarrow> Inr (popupsDone env s)
                 | Some idx \<Rightarrow>
                     (let count = idx - bufferCursor s
                      in case wstring_substr cmd (bufferCursor s) count of
                           Inl e \<Rightarrow> Inl e
                         | Inr sub \<Rightarrow>
                             (case wstring_replace (buffer s) (bufferCursor s) count sub of
                                Inl e \<Rightarrow> Inl e
                              | Inr b \<Rightarrow>
                                  Inr (popupsDone env
                                         (s\<lparr>buffer := b, bufferCursor := bufferCursor s + count,
                                            bufferDirty := True\<rparr>)))))))"

definition popupHandleCopyFromCharInput ::
  "('h, 's) env \<Rightarrow> wchar \<Rightarrow> wchar \<Rightarrow> ('h, 's) cooked \<Rightarrow> error + ('h, 's) cooked" where
  "popupHandleCopyFromCharInput env wch vkey s =
     (if vkey \<noteq> 0 then (if vkey = VK_ESCAPE then Inr (popupsDone env s) else Inr s)
      else
        (let idx = (case wstring_find (buffer s) wch (bufferCursor s) of
                      None \<Rightarrow> length (buffer s)
                    | Some i \<Rightarrow> min i (length (buffer s)))
         in case wstring_erase (buffer s) (bufferCursor s) (size_sub idx (bufferCursor s)) of
              Inl e \<Rightarrow> Inl e
            | Inr b \<Rightarrow> Inr (popupsDone env (s\<lparr>buffer := b, bufferDirty := True\<rparr>))))"

text \<open>
  \<^verbatim>\<open>std::stoi\<close> on the C string that \<^verbatim>\<open>buffer.data()\<close> points to: the characters
  before the first NUL, leading white space skipped, an optional sign, then
  decimal digits. It throws \<^verbatim>\<open>std::invalid_argument\<close> when there is no digit and
  \<^verbatim>\<open>std::out_of_range\<close> when the value does not fit an \<^verbatim>\<open>int\<close>.
\<close>

definition cstr :: "wstring \<Rightarrow> wstring" where
  "cstr b = takeWhile (\<lambda>c. c \<noteq> 0) b"

definition iswspace :: "wchar \<Rightarrow> bool" where
  "iswspace c = (c = 0x20 \<or> (0x09 \<le> c \<and> c \<le> 0x0D))"

definition iswdigit :: "wchar \<Rightarrow> bool" where
  "iswdigit c = (0x30 \<le> c \<and> c \<le> 0x39)"

definition decimal :: "wstring \<Rightarrow> int" where
  "decimal ds = foldl (\<lambda>a d. a * 10 + (uint d - 48)) 0 ds"

definition stoi :: "wstring \<Rightarrow> error + int" where
  "stoi str =
     (let s1 = dropWhile iswspace str;
          neg = (s1 \<noteq> [] \<and> hd s1 = 0x2D);
          s2 = (if s1 \<noteq> [] \<and> (hd s1 = 0x2D \<or> hd s1 = 0x2B) then tl s1 else s1);
          ds = takeWhile iswdigit s2
      in if ds = [] then Inl InvalidArgument
         else
           (let v = (if neg then - decimal ds else decimal ds)
            in if v < - 2147483648 \<or> v > 2147483647 then Inl OutOfRange else Inr v))"

definition setTopPopup :: "popup \<Rightarrow> ('h, 's) cooked \<Rightarrow> ('h, 's) cooked" where
  "setTopPopup p s = s\<lparr>popups := butlast (popups s) @ [p]\<rparr>"

definition popupHandleCommandNumberInput ::
  "('h, 's) env \<Rightarrow> popup \<Rightarrow> wchar \<Rightarrow> wchar \<Rightarrow> ('h, 's) cooked \<Rightarrow> error + ('h, 's) cooked" where
  "popupHandleCommandNumberInput env p wch vkey s =
     (if vkey \<noteq> 0 then (if vkey = VK_ESCAPE then Inr (popupsDone env s) else Inr s)
      else if wch = UNICODE_CARRIAGERETURN then
        (let p1 = p\<lparr>cn_buffer := (cn_buffer p)[cn_bufferSize p := 0],
                    cn_bufferSize := cn_bufferSize p + 1\<rparr>
         in case stoi (cstr (cn_buffer p1)) of
              Inl e \<Rightarrow> Inl e
            | Inr n \<Rightarrow>
                (case history s of
                   None \<Rightarrow> Inl NullPointer
                 | Some h \<Rightarrow>
                     (case RetrieveNth (hist env) n h of
                        (str, h') \<Rightarrow>
                          Inr (popupsDone env
                                 (replaceBuffer str (setTopPopup p1 (s\<lparr>history := Some h'\<rparr>)))))))
      else
        (let edited =
               (if 0x30 \<le> wch \<and> wch \<le> 0x39 then
                  Some (if cn_bufferSize p < CommandNumberMaxInputLength
                        then p\<lparr>cn_buffer := (cn_buffer p)[cn_bufferSize p := wch],
                               cn_bufferSize := cn_bufferSize p + 1\<rparr>
                        else p)
                else if wch = UNICODE_BACKSPACE then
                  Some (if cn_bufferSize p > 0
                        then p\<lparr>cn_buffer := (cn_buffer p)[cn_bufferSize p - 1 := UNICODE_SPACE],
                               cn_bufferSize := cn_bufferSize p - 1\<rparr>
                        else p)
                else None)
         in case edited of
              None \<Rightarrow> Inr s
            | Some p1 \<Rightarrow>
                (case contentRect p1 of
                   (left, ytop, right, ybottom) \<Rightarrow>
                     Inr ((setTopPopup p1 s)
                            \<lparr>screenInfo :=
                               RowWrite (scr env) ytop False
                                 (take CommandNumberMaxInputLength (cn_buffer p1))
                                 (right - int CommandNumberMaxInputLength) right (screenInfo s)\<rparr>))))"

definition popupHandleCommandListInput ::
  "('h, 's) env \<Rightarrow> popup \<Rightarrow> wchar \<Rightarrow> wchar \<Rightarrow> 32 word \<Rightarrow> ('h, 's) cooked
     \<Rightarrow> error + (bool \<times> ('h, 's) cooked)" where
  "popupHandleCommandListInput env p wch vkey modifiers s =
     (case history s of
        None \<Rightarrow>
          (if wch \<noteq> UNICODE_CARRIAGERETURN \<and> vkey = VK_ESCAPE then Inr (False, popupsDone env s)
           else if wch \<noteq> UNICODE_CARRIAGERETURN \<and> vkey = VK_F9 then
             (case popupPush env CommandNumber s of Inl e \<Rightarrow> Inl e | Inr s' \<Rightarrow> Inr (False, s'))
           else if wch \<noteq> UNICODE_CARRIAGERETURN
                   \<and> vkey \<notin> {VK_DELETE, VK_LEFT, VK_RIGHT, VK_UP, VK_DOWN, VK_HOME, VK_END,
                               VK_PRIOR, VK_NEXT}
           then Inr (False, s)
           else Inl NullPointer)
      | Some h \<Rightarrow>
          (let redraw = (\<lambda>h' p'.
                 (case popupDrawCommandList env h' p' (screenInfo s) of
                    (p'', sc') \<Rightarrow>
                      Inr (False, (setTopPopup p'' s)\<lparr>history := Some h', screenInfo := sc'\<rparr>)));
               height = (case contentRect p of (left, ytop, right, ybottom) \<Rightarrow> ybottom - ytop)
           in if wch = UNICODE_CARRIAGERETURN then
                (case RetrieveNth (hist env) (cl_selected p) h of
                   (str, h') \<Rightarrow>
                     handleChar env UNICODE_CARRIAGERETURN modifiers
                       (popupsDone env (s\<lparr>buffer := str, history := Some h'\<rparr>)))
              else if vkey = VK_ESCAPE then Inr (False, popupsDone env s)
              else if vkey = VK_F9 then
                (case popupPush env CommandNumber s of Inl e \<Rightarrow> Inl e | Inr s' \<Rightarrow> Inr (False, s'))
              else if vkey = VK_DELETE then
                (let h' = Remove (hist env) (cl_selected p) h
                 in if GetNumberOfCommands (hist env) h' \<le> 0
                    then Inr (False, popupsDone env (s\<lparr>history := Some h'\<rparr>))
                    else redraw h' p)
              else if vkey = VK_LEFT \<or> vkey = VK_RIGHT then
                (case RetrieveNth (hist env) (cl_selected p) h of
                   (str, h') \<Rightarrow>
                     Inr (False, popupsDone env (replaceBuffer str (s\<lparr>history := Some h'\<rparr>))))
              else if vkey = VK_UP then
                redraw (if IsFlagSet modifiers SHIFT_PRESSED
                        then Swap (hist env) (cl_selected p) (cl_selected p - 1) h else h)
                       (p\<lparr>cl_selected := cl_selected p - 1\<rparr>)
              else if vkey = VK_DOWN then
                redraw (if IsFlagSet modifiers SHIFT_PRESSED
                        then Swap (hist env) (cl_selected p) (cl_selected p + 1) h else h)
                       (p\<lparr>cl_selected := cl_selected p + 1\<rparr>)
              else if vkey = VK_HOME then redraw h (p\<lparr>cl_selected := 0\<rparr>)
              else if vkey = VK_END then redraw h (p\<lparr>cl_selected := INT_MAX\<rparr>)
              else if vkey = VK_PRIOR then redraw h (p\<lparr>cl_selected := cl_selected p - height\<rparr>)
              else if vkey = VK_NEXT then redraw h (p\<lparr>cl_selected := cl_selected p + height\<rparr>)
              else Inr (False, s)))"

definition popupHandleInput ::
  "('h, 's) env \<Rightarrow> wchar \<Rightarrow> wchar \<Rightarrow> 32 word \<Rightarrow> ('h, 's) cooked
     \<Rightarrow> error + (bool \<times> ('h, 's) cooked)" where
  "popupHandleInput env wch vkey modifiers s =
     (if popups s = [] then Inr (False, s)
      else
        (let p = last (popups s)
         in case kind p of
              CopyToChar \<Rightarrow>
                (case popupHandleCopyToCharInput env wch vkey s of
                   Inl e \<Rightarrow> Inl e | Inr s' \<Rightarrow> Inr (False, s'))
            | CopyFromChar \<Rightarrow>
                (case popupHandleCopyFromCharInput env wch vkey s of
                   Inl e \<Rightarrow> Inl e | Inr s' \<Rightarrow> Inr (False, s'))
            | CommandNumber \<Rightarrow>
                (case popupHandleCommandNumberInput env p wch vkey s of
                   Inl e \<Rightarrow> Inl e | Inr s' \<Rightarrow> Inr (False, s'))
            | CommandList \<Rightarrow> popupHandleCommandListInput env p wch vkey modifiers s))"

subsection \<open>The input loop: \<^verbatim>\<open>_readCharInputLoop\<close> and \<^verbatim>\<open>Read\<close>\<close>

text \<open>
  What \<^verbatim>\<open>GetChar\<close> delivers: a key (the character or virtual key, the flag it
  sets through \<^verbatim>\<open>pCommandLineEditingKeys\<close> or \<^verbatim>\<open>pPopupKeys\<close>, whichever the loop
  passes, and the modifiers) or a failed status. The queue is a list; the empty
  queue is \<^verbatim>\<open>CONSOLE_STATUS_WAIT\<close>.
\<close>

datatype input_event = KeyEvent wchar bool "32 word" | InputError int

definition processEvent ::
  "('h, 's) env \<Rightarrow> input_event \<Rightarrow> ('h, 's) cooked \<Rightarrow> error + (bool \<times> ('h, 's) cooked)" where
  "processEvent env ev s =
     (case ev of
        InputError status \<Rightarrow> Inl (InputFailure status)
      | KeyEvent charOrVkey special modifiers \<Rightarrow>
          (if popups s \<noteq> [] then
             popupHandleInput env (if special then 0 else charOrVkey)
               (if special then charOrVkey else 0) modifiers s
           else if special then
             (case handleVkey env charOrVkey modifiers s of
                Inl e \<Rightarrow> Inl e | Inr s' \<Rightarrow> Inr (False, s'))
           else handleChar env charOrVkey modifiers s))"

fun readCharInputLoop ::
  "('h, 's) env \<Rightarrow> ('h, 's) cooked \<Rightarrow> input_event list \<Rightarrow> error + (bool \<times> ('h, 's) cooked)" where
  "readCharInputLoop env s [] = Inr (False, s)"
| "readCharInputLoop env s (ev # evs) =
     (case processEvent env ev s of
        Inl e \<Rightarrow> Inl e
      | Inr (done, s') \<Rightarrow> if done then Inr (True, s') else readCharInputLoop env s' evs)"

text \<open>\<^verbatim>\<open>Read\<close> up to the call of \<^verbatim>\<open>_handlePostCharInputLoop\<close>: the loop, then the flush.\<close>

definition readAndFlush ::
  "('h, 's) env \<Rightarrow> ('h, 's) cooked \<Rightarrow> input_event list \<Rightarrow> error + (bool \<times> ('h, 's) cooked)" where
  "readAndFlush env s evs =
     (case readCharInputLoop env s evs of
        Inl e \<Rightarrow> Inl e
      | Inr (done, s') \<Rightarrow> Inr (done, flushBuffer env s'))"

subsection \<open>Construction, resize, insert mode\<close>

text \<open>
  The loop of the constructor that counts the graphemes of the initial data, on
  fuel as \<open>pasteWalk\<close> is: \<open>initialData.size()\<close> steps are enough whenever
  \<^verbatim>\<open>GraphemeNext\<close> advances.
\<close>

fun initialDistance ::
  "nat \<Rightarrow> (wstring \<Rightarrow> nat \<Rightarrow> nat) \<Rightarrow> wstring \<Rightarrow> nat \<Rightarrow> int \<Rightarrow> error + int" where
  "initialDistance 0 GN d i distance = (if i < length d then Inl Diverged else Inr distance)"
| "initialDistance (Suc fuel) GN d i distance =
     (if i < length d then initialDistance fuel GN d (GN d i) (distance - 1) else Inr distance)"

definition COOKED_READ_DATA ::
  "('h, 's) env \<Rightarrow> 's \<Rightarrow> 32 word \<Rightarrow> 32 word \<Rightarrow> wstring \<Rightarrow> 'h option \<Rightarrow> error + ('h, 's) cooked" where
  "COOKED_READ_DATA env sc mode CtrlWakeupMask initialData ho =
     (let s0 = \<lparr>buffer = [], bufferCursor = 0, bufferDirty = False,
                 insertMode = GetInsertMode (scr env) sc, controlKeyState = 0,
                 distanceCursor = 0, distanceEnd = 0, popups = [], history = ho,
                 screenInfo = sc, ctrlWakeupMask = CtrlWakeupMask, InputMode = mode\<rparr>
      in if initialData = [] then Inr s0
         else
           (case initialDistance (length initialData) (GraphemeNext env) initialData 0 0 of
              Inl e \<Rightarrow> Inl e
            | Inr distance \<Rightarrow>
                (let end = CursorPosition (scr env) sc;
                     beg = NavigateCursor (scr env) end distance sc;
                     d = (snd end - snd beg) * fst (Dimensions (scr env) sc) + fst end - fst beg
                 in Inr (s0\<lparr>buffer := initialData, bufferCursor := length initialData,
                           bufferDirty := True, distanceCursor := d, distanceEnd := d\<rparr>))))"

definition EraseBeforeResize :: "('h, 's) env \<Rightarrow> ('h, 's) cooked \<Rightarrow> ('h, 's) cooked" where
  "EraseBeforeResize env s0 =
     (let s = popupsDone env s0
      in if distanceEnd s \<noteq> 0 then
           (let sc1 = unwindCursorPosition env (distanceCursor s) (screenInfo s);
                sc2 = erase env (distanceEnd s) sc1;
                sc3 = unwindCursorPosition env (distanceEnd s) sc2
            in s\<lparr>screenInfo := sc3, distanceCursor := 0, distanceEnd := 0\<rparr>)
         else s)"

definition RedrawAfterResize :: "('h, 's) env \<Rightarrow> ('h, 's) cooked \<Rightarrow> ('h, 's) cooked" where
  "RedrawAfterResize env s = flushBuffer env (markAsDirty s)"

definition SetInsertMode :: "bool \<Rightarrow> ('h, 's) cooked \<Rightarrow> ('h, 's) cooked" where
  "SetInsertMode b s = s\<lparr>insertMode := b\<rparr>"

subsection \<open>After the loop: \<^verbatim>\<open>_handlePostCharInputLoop\<close>\<close>



text \<open>\<^verbatim>\<open>input.find(UNICODE_LINEFEED) + 1\<close>: \<^verbatim>\<open>npos + 1\<close> wraps around to 0.\<close>

definition firstLineEnd :: "wstring \<Rightarrow> nat" where
  "firstLineEnd input =
     (case wstring_find input UNICODE_LINEFEED 0 of None \<Rightarrow> 0 | Some i \<Rightarrow> i + 1)"




subsection \<open>Grapheme boundaries and the contracts of the collaborators\<close>

text \<open>
  The positions \<^verbatim>\<open>GraphemeNext\<close> visits from the start of a text are its grapheme
  boundaries.
\<close>

fun boundaries :: "nat \<Rightarrow> (wstring \<Rightarrow> nat \<Rightarrow> nat) \<Rightarrow> wstring \<Rightarrow> nat \<Rightarrow> nat list" where
  "boundaries 0 GN t i = [i]"
| "boundaries (Suc fuel) GN t i = i # (if i < length t then boundaries fuel GN t (GN t i) else [])"

definition onGraphemeBoundary :: "('h, 's) env \<Rightarrow> wstring \<Rightarrow> nat \<Rightarrow> bool" where
  "onGraphemeBoundary env t i = (i \<in> set (boundaries (length t) (GraphemeNext env) t 0))"

text \<open>
  What the caret relies on: \<^verbatim>\<open>GraphemePrev\<close> does not move forward, and
  \<^verbatim>\<open>GraphemeNext\<close> stays in the text.
\<close>

definition graphemeContract :: "('h, 's) env \<Rightarrow> bool" where
  "graphemeContract env =
     ((\<forall>t i. GraphemePrev env t i \<le> i)
      \<and> (\<forall>t i. i < length t \<longrightarrow> GraphemeNext env t i \<le> length t))"


subsection \<open>The reachable states of a read\<close>

text \<open>
  A read starts in a constructed state. It then handles one input event after
  the other, is flushed whenever the queue blocks, can be told to erase and
  redraw around a resize and to change the insert mode; between two of these
  steps the history and the screen, which the editor shares with the rest of the
  console, can change.
\<close>

inductive reachable :: "('h, 's) env \<Rightarrow> ('h, 's) cooked \<Rightarrow> bool" for env :: "('h, 's) env" where
  constructed:
    "COOKED_READ_DATA env sc mode wakeup initialData ho = Inr s \<Longrightarrow> reachable env s"
| handled:
    "reachable env s \<Longrightarrow> processEvent env ev s = Inr (done, s') \<Longrightarrow> reachable env s'"
| flushed:
    "reachable env s \<Longrightarrow> reachable env (flushBuffer env s)"
| erased:
    "reachable env s \<Longrightarrow> reachable env (EraseBeforeResize env s)"
| redrawn:
    "reachable env s \<Longrightarrow> reachable env (RedrawAfterResize env s)"
| insert_mode:
    "reachable env s \<Longrightarrow> reachable env (SetInsertMode b s)"
| shared:
    "reachable env s \<Longrightarrow> reachable env (s\<lparr>history := map_option f (history s), screenInfo := sc\<rparr>)"

text \<open>The invariant of the popup stack, on the kinds from the bottom to the top.\<close>

definition popupStackOk :: "PopupKind list \<Rightarrow> bool" where
  "popupStackOk ks =
     (length ks \<le> 2 \<and> (length ks = 2 \<longrightarrow> ks ! 0 = CommandList \<and> ks ! 1 = CommandNumber))"

subsection \<open>Concrete collaborators\<close>

text \<open>
  Modelled from the spec: \<^verbatim>\<open>TextBuffer::GraphemeNext\<close> and
  \<^verbatim>\<open>TextBuffer::GraphemePrev\<close> (the host's Unicode tables are not in the sources).
  The model steps by one code point: the two halves of a surrogate pair are never
  separated, as in every extended grapheme cluster; any other code unit is a
  cluster of its own.
\<close>

definition isHighSurrogate :: "wchar \<Rightarrow> bool" where
  "isHighSurrogate c = (0xD800 \<le> c \<and> c \<le> 0xDBFF)"

definition isLowSurrogate :: "wchar \<Rightarrow> bool" where
  "isLowSurrogate c = (0xDC00 \<le> c \<and> c \<le> 0xDFFF)"

definition spec_GraphemeNext :: "wstring \<Rightarrow> nat \<Rightarrow> nat" where
  "spec_GraphemeNext t i =
     (if i < length t then
        (if i + 1 < length t \<and> isHighSurrogate (t ! i) \<and> isLowSurrogate (t ! (i + 1))
         then i + 2 else i + 1)
      else i)"

definition spec_GraphemePrev :: "wstring \<Rightarrow> nat \<Rightarrow> nat" where
  "spec_GraphemePrev t i =
     (if i = 0 then 0
      else if 2 \<le> i \<and> i \<le> length t \<and> isHighSurrogate (t ! (i - 2)) \<and> isLowSurrogate (t ! (i - 1))
      then i - 2 else i - 1)"

text \<open>
  Modelled from the spec: \<^verbatim>\<open>CommandHistory\<close>, as the list of its commands and
  \<^verbatim>\<open>LastDisplayed\<close>. \<^verbatim>\<open>RetrieveNth\<close> clamps its index (\<^verbatim>\<open>INT_MAX\<close> is the last
  command); \<^verbatim>\<open>FindMatchingCommand\<close> takes the first command with the prefix.
\<close>

type_synonym spec_history = "wstring list \<times> int"

definition spec_GetNth :: "int \<Rightarrow> spec_history \<Rightarrow> wstring" where
  "spec_GetNth i h = (if 0 \<le> i \<and> i < int (length (fst h)) then fst h ! nat i else [])"

definition spec_RetrieveNth :: "int \<Rightarrow> spec_history \<Rightarrow> wstring \<times> spec_history" where
  "spec_RetrieveNth i h =
     (let j = clamp i 0 (int (length (fst h)) - 1) in (spec_GetNth j h, (fst h, j)))"

fun spec_find :: "wstring \<Rightarrow> wstring list \<Rightarrow> int \<Rightarrow> int option" where
  "spec_find prefix [] i = None"
| "spec_find prefix (c # cs) i =
     (if take (length prefix) c = prefix then Some i else spec_find prefix cs (i + 1))"

definition spec_history_ops :: "spec_history history_ops" where
  "spec_history_ops =
     \<lparr>GetLastCommand = (\<lambda>h. if fst h = [] then [] else last (fst h)),
      AtFirstCommand = (\<lambda>h. snd h \<le> 0),
      AtLastCommand = (\<lambda>h. snd h \<ge> int (length (fst h)) - 1),
      Retrieve = (\<lambda>d h. spec_RetrieveNth (case d of Previous \<Rightarrow> snd h - 1 | Next \<Rightarrow> snd h + 1) h),
      RetrieveNth = spec_RetrieveNth,
      GetNth = spec_GetNth,
      GetNumberOfCommands = (\<lambda>h. int (length (fst h))),
      GetCommands = fst,
      LastDisplayed = snd,
      FindMatchingCommand = (\<lambda>prefix start h. spec_find prefix (fst h) 0),
      Empty = (\<lambda>h. ([], - 1)),
      OrFlags = (\<lambda>f h. h),
      Remove = (\<lambda>i h. (if 0 \<le> i \<and> i < int (length (fst h))
                         then take (nat i) (fst h) @ drop (nat i + 1) (fst h) else fst h, snd h)),
      Swap = (\<lambda>i j h. (if 0 \<le> i \<and> i < int (length (fst h)) \<and> 0 \<le> j \<and> j < int (length (fst h))
                          then (fst h)[nat i := fst h ! nat j, nat j := fst h ! nat i]
                          else fst h, snd h)),
      Add = (\<lambda>str noDup h. (fst h @ [str], int (length (fst h))))\<rparr>"

text \<open>
  Modelled from the spec: the text buffer, as the cursor position on a grid 80
  cells wide and 25 high that is also the viewport. Writing a text moves the
  cursor one cell for each code unit and does not scroll; drawing has no effect
  on the cursor; reading a rectangle gives a blank (a space with the attributes
  7) for each of its cells.
\<close>

definition spec_advance :: "point \<Rightarrow> int \<Rightarrow> point" where
  "spec_advance pos n = ((snd pos * 80 + fst pos + n) mod 80, (snd pos * 80 + fst pos + n) div 80)"

definition spec_screen_ops :: "point screen_ops" where
  "spec_screen_ops =
     \<lparr>WriteCharsLegacy = (\<lambda>text pos. (0, spec_advance pos (int (length text)))),
      CursorPosition = (\<lambda>pos. pos),
      Dimensions = (\<lambda>pos. (80, 25)),
      SetCursorPosition = (\<lambda>p pos. p),
      MakeCursorVisible = (\<lambda>p pos. pos),
      NavigateCursor = (\<lambda>p n pos. spec_advance p n),
      GetViewport = (\<lambda>pos. ((0, 0), (80, 25))),
      ReadConsoleOutput =
        (\<lambda>(x1, y1, x2, y2) pos.
           Some (replicate (nat ((x2 - x1) * (y2 - y1))) (0x20, 7), (x1, y1, x2, y2))),
      WriteConsoleOutput = (\<lambda>cells r pos. pos),
      RowWrite = (\<lambda>y inverted text columnBegin columnLimit pos. pos),
      SetIsPopupShown = (\<lambda>b pos. pos),
      SetCursorDBMode = (\<lambda>b pos. pos),
      GetInsertMode = (\<lambda>pos. True),
      SignalTextChanged = (\<lambda>pos. pos),
      ClearCmdExeAliases = (\<lambda>pos. pos),
      SetIgnoreNextKeyup = (\<lambda>pos. pos),
      LoadString = (\<lambda>rid. [])\<rparr>"

definition spec_env :: "(spec_history, point) env" where
  "spec_env =
     \<lparr>hist = spec_history_ops, scr = spec_screen_ops, GraphemeNext = spec_GraphemeNext,
      GraphemePrev = spec_GraphemePrev, DelimiterClass = spec_DelimiterClass\<rparr>"





text \<open>A state of the editor over the concrete collaborators, with nothing echoed yet.\<close>

definition spec_state ::
  "wstring \<Rightarrow> nat \<Rightarrow> 32 word \<Rightarrow> 32 word \<Rightarrow> spec_history option \<Rightarrow> (spec_history, point) cooked" where
  "spec_state b c wakeup mode ho =
     \<lparr>buffer = b, bufferCursor = c, bufferDirty = False, insertMode = True, controlKeyState = 0,
      distanceCursor = 0, distanceEnd = 0, popups = [], history = ho, screenInfo = (0, 0),
      ctrlWakeupMask = wakeup, InputMode = mode\<rparr>"

text \<open>
  The history of scenario 5 (\<open>one\<close>, \<open>two\<close>, \<open>three\<close>; the last one displayed), and
  the popups that F7 and then F9 put on the screen of the concrete collaborators.
\<close>

definition spec_hist3 :: spec_history where
  "spec_hist3 = ([[0x6F, 0x6E, 0x65], [0x74, 0x77, 0x6F], [0x74, 0x68, 0x72, 0x65, 0x65]], 2)"

definition spec_list_popup :: popup where
  "spec_list_popup =
     \<lparr>kind = CommandList, contentRect = (20, 7, 60, 17), backupRect = (19, 6, 61, 18),
      backup = replicate 504 (0x20, 7), cn_buffer = replicate 6 0, cn_bufferSize = 0,
      cl_selected = 2, cl_top = 0, cl_dirtyHeight = 3\<rparr>"

definition spec_number_popup :: popup where
  "spec_number_popup =
     \<lparr>kind = CommandNumber, contentRect = (26, 12, 53, 13), backupRect = (25, 11, 54, 14),
      backup = replicate 87 (0x20, 7), cn_buffer = replicate 6 0x20, cn_bufferSize = 0,
      cl_selected = 0, cl_top = 0, cl_dirtyHeight = 0\<rparr>"

text \<open>The popup that F2 puts on the screen of the concrete collaborators.\<close>

definition spec_copy_popup :: popup where
  "spec_copy_popup =
     \<lparr>kind = CopyToChar, contentRect = (27, 12, 53, 13), backupRect = (26, 11, 54, 14),
      backup = replicate 84 (0x20, 7), cn_buffer = replicate 6 0, cn_bufferSize = 0,
      cl_selected = 0, cl_top = 0, cl_dirtyHeight = 0\<rparr>"

text \<open>What a push can do to the editor's own fields.\<close>

definition sameLine :: "('h, 's) cooked \<Rightarrow> ('h, 's) cooked \<Rightarrow> bool" where
  "sameLine s s' =
     (buffer s' = buffer s \<and> history s' = history s \<and> insertMode s' = insertMode s
      \<and> controlKeyState s' = controlKeyState s \<and> ctrlWakeupMask s' = ctrlWakeupMask s
      \<and> InputMode s' = InputMode s
      \<and> (bufferCursor s' = bufferCursor s \<or> bufferCursor s' = min (bufferCursor s) (length (buffer s))))"

section \<open>Properties\<close>

subsection \<open>Word motion\<close>

lemma skip_space_back_le: "skip_space_back chars p \<le> p"
  by (induction p) auto

lemma skip_space_back_spaces:
  "skip_space_back chars p < j \<Longrightarrow> j \<le> p \<Longrightarrow> chars ! j = UNICODE_SPACE"
proof (induction p)
  case 0
  then show ?case by simp
next
  case (Suc p)
  show ?case
  proof (cases "chars ! Suc p = UNICODE_SPACE")
    case True
    with Suc show ?thesis by (cases "j = Suc p") auto
  next
    case False
    with Suc show ?thesis by simp
  qed
qed

lemma skip_space_back_stop:
  "skip_space_back chars p = 0 \<or> chars ! skip_space_back chars p \<noteq> UNICODE_SPACE"
  by (induction p) auto

lemma skip_class_back_le: "skip_class_back DC chars dc p \<le> p"
  by (induction p) auto

lemma skip_class_back_class:
  "skip_class_back DC chars dc p \<le> j \<Longrightarrow> j < p \<Longrightarrow> DC (chars ! j) = dc"
proof (induction p)
  case 0
  then show ?case by simp
next
  case (Suc p)
  show ?case
  proof (cases "DC (chars ! p) = dc")
    case True
    with Suc show ?thesis by (cases "j = p") auto
  next
    case False
    with Suc show ?thesis by simp
  qed
qed

lemma skip_class_back_reach:
  "q \<le> p \<Longrightarrow> (\<And>j. q \<le> j \<Longrightarrow> j < p \<Longrightarrow> DC (chars ! j) = dc) \<Longrightarrow>
   skip_class_back DC chars dc p \<le> q"
proof (induction p)
  case 0
  then show ?case by simp
next
  case (Suc p)
  show ?case
  proof (cases "q = Suc p")
    case True
    then show ?thesis using skip_class_back_le [of DC chars dc "Suc p"] by simp
  next
    case False
    with Suc.prems have qp: "q \<le> p" by simp
    have cls: "DC (chars ! p) = dc" using Suc.prems(2) [of p] qp by simp
    have "skip_class_back DC chars dc p \<le> q"
      using Suc.IH [OF qp] Suc.prems(2) by simp
    with cls show ?thesis by simp
  qed
qed

lemma skip_fwd_step:
  "position < length chars \<Longrightarrow> P (chars ! position) \<Longrightarrow>
   skip_fwd P chars position = skip_fwd P chars (Suc position)"
  by (subst skip_fwd.simps) simp

lemma skip_fwd_stop:
  "\<not> (position < length chars \<and> P (chars ! position)) \<Longrightarrow> skip_fwd P chars position = position"
  by (subst skip_fwd.simps) auto

lemma skip_fwd_ge: "p \<le> skip_fwd P chars p"
proof (induction P chars p rule: skip_fwd.induct)
  case (1 P chars position)
  show ?case
  proof (cases "position < length chars \<and> P (chars ! position)")
    case True
    with 1 have "Suc position \<le> skip_fwd P chars (Suc position)" by simp
    with True show ?thesis by (simp add: skip_fwd_step)
  next
    case False
    then have "skip_fwd P chars position = position" by (rule skip_fwd_stop)
    then show ?thesis by simp
  qed
qed

lemma skip_fwd_le_length: "p \<le> length chars \<Longrightarrow> skip_fwd P chars p \<le> length chars"
proof (induction P chars p rule: skip_fwd.induct)
  case (1 P chars position)
  show ?case
  proof (cases "position < length chars \<and> P (chars ! position)")
    case True
    then have "skip_fwd P chars (Suc position) \<le> length chars"
      using 1 by simp
    with True show ?thesis by (simp add: skip_fwd_step)
  next
    case False
    then have "skip_fwd P chars position = position" by (rule skip_fwd_stop)
    with "1.prems" show ?thesis by simp
  qed
qed

lemma skip_fwd_reach:
  "p \<le> q \<Longrightarrow> q \<le> length chars \<Longrightarrow> (\<And>j. p \<le> j \<Longrightarrow> j < q \<Longrightarrow> P (chars ! j)) \<Longrightarrow>
   q \<le> skip_fwd P chars p"
proof (induction P chars p rule: skip_fwd.induct)
  case (1 P chars position)
  show ?case
  proof (cases "position = q")
    case True
    then show ?thesis using skip_fwd_ge [of position P chars] by simp
  next
    case False
    with "1.prems" have lt: "position < q" by simp
    with "1.prems" have cond: "position < length chars \<and> P (chars ! position)" by simp
    have "q \<le> skip_fwd P chars (Suc position)"
      using "1.IH" [OF cond] lt "1.prems" by simp
    with cond show ?thesis by (simp add: skip_fwd_step)
  qed
qed

lemma skip_fwd_holds:
  "p \<le> j \<Longrightarrow> j < skip_fwd P chars p \<Longrightarrow> P (chars ! j)"
proof (induction P chars p rule: skip_fwd.induct)
  case (1 P chars position)
  show ?case
  proof (cases "position < length chars \<and> P (chars ! position)")
    case True
    then have eq: "skip_fwd P chars position = skip_fwd P chars (Suc position)"
      by (simp add: skip_fwd_step)
    show ?thesis
    proof (cases "j = position")
      case True
      with \<open>position < length chars \<and> P (chars ! position)\<close> show ?thesis by simp
    next
      case False
      with "1.prems" have "Suc position \<le> j" by simp
      moreover from "1.prems" eq have "j < skip_fwd P chars (Suc position)" by simp
      ultimately show ?thesis using "1.IH" True by simp
    qed
  next
    case False
    then have "skip_fwd P chars position = position" by (rule skip_fwd_stop)
    with "1.prems" show ?thesis by simp
  qed
qed

lemma wordPrev_le: "wordPrev DC chars i \<le> i"
proof (cases "i = 0")
  case True
  then show ?thesis by (simp add: wordPrev_def)
next
  case False
  have "skip_class_back DC chars (DC (chars ! skip_space_back chars (i - 1)))
          (skip_space_back chars (i - 1)) \<le> skip_space_back chars (i - 1)"
    by (rule skip_class_back_le)
  also have "\<dots> \<le> i - 1" by (rule skip_space_back_le)
  finally have "skip_class_back DC chars (DC (chars ! skip_space_back chars (i - 1)))
          (skip_space_back chars (i - 1)) \<le> i - 1" .
  with False show ?thesis by (simp add: wordPrev_def Let_def)
qed

lemma wordNext_le_length: "i \<le> length chars \<Longrightarrow> wordNext DC chars i \<le> length chars"
  by (simp add: wordNext_def Let_def skip_fwd_le_length)

lemma wordNext_ge: "i \<le> wordNext DC chars i"
proof (cases "i < length chars")
  case True
  have "Suc i \<le> skip_fwd (\<lambda>c. DC (chars ! i) = DC c) chars (Suc i)"
    by (rule skip_fwd_ge)
  also have "\<dots> \<le> skip_fwd (\<lambda>c. c = UNICODE_SPACE) chars
                    (skip_fwd (\<lambda>c. DC (chars ! i) = DC c) chars (Suc i))"
    by (rule skip_fwd_ge)
  finally show ?thesis using True by (simp add: wordNext_def Let_def)
next
  case False
  then show ?thesis by (simp add: wordNext_def)
qed

lemma wordNext_wordPrev_ge:
  assumes "i \<le> length chars"
  shows "i \<le> wordNext DC chars (wordPrev DC chars i)"
proof (cases "i = 0")
  case True
  then show ?thesis by simp
next
  case False
  define p1 where "p1 = skip_space_back chars (i - 1)"
  define dc where "dc = DC (chars ! p1)"
  define k where "k = skip_class_back DC chars dc p1"
  define pA where "pA = skip_fwd (\<lambda>c. dc = DC c) chars (Suc k)"
  define pB where "pB = skip_fwd (\<lambda>c. c = UNICODE_SPACE) chars pA"
  have k_def': "wordPrev DC chars i = k"
    using False by (simp add: wordPrev_def Let_def p1_def dc_def k_def)
  have p1_le: "p1 \<le> i - 1" unfolding p1_def by (rule skip_space_back_le)
  have k_le: "k \<le> p1" unfolding k_def by (rule skip_class_back_le)
  have p1_lt: "p1 < length chars" using p1_le False assms by simp
  have k_lt: "k < length chars" using k_le p1_lt by simp
  have cls: "DC (chars ! j) = dc" if "k \<le> j" "j \<le> p1" for j
  proof (cases "j = p1")
    case True
    then show ?thesis by (simp add: dc_def)
  next
    case False
    with that have "j < p1" by simp
    with that(1) show ?thesis unfolding k_def by (rule skip_class_back_class)
  qed
  have dck: "DC (chars ! k) = dc" using cls [of k] k_le by simp
  have next_eq: "wordNext DC chars k = pB"
    using k_lt dck by (simp add: wordNext_def Let_def pA_def pB_def)
  have pA_ge: "Suc p1 \<le> pA"
    unfolding pA_def
  proof (rule skip_fwd_reach)
    show "Suc k \<le> Suc p1" using k_le by simp
    show "Suc p1 \<le> length chars" using p1_lt by simp
    fix j assume "Suc k \<le> j" "j < Suc p1"
    then show "dc = DC (chars ! j)" using cls [of j] by simp
  qed
  have "i \<le> pB"
  proof (cases "i \<le> pA")
    case True
    moreover have "pA \<le> pB" unfolding pB_def by (rule skip_fwd_ge)
    ultimately show ?thesis by simp
  next
    case False
    show ?thesis unfolding pB_def
    proof (rule skip_fwd_reach)
      show "pA \<le> i" using False by simp
      show "i \<le> length chars" by (rule assms)
      fix j assume j: "pA \<le> j" "j < i"
      then have "p1 < j" "j \<le> i - 1" using pA_ge by simp_all
      then show "chars ! j = UNICODE_SPACE"
        unfolding p1_def by (rule skip_space_back_spaces)
    qed
  qed
  then show ?thesis by (simp add: k_def' next_eq)
qed

lemma wordPrev_wordNext_le:
  assumes "i \<le> length chars"
  shows "wordPrev DC chars (wordNext DC chars i) \<le> i"
proof (cases "i < length chars")
  case False
  then have "wordNext DC chars i = i" by (simp add: wordNext_def)
  then show ?thesis by (simp add: wordPrev_le)
next
  case True
  define dc where "dc = DC (chars ! i)"
  define pA where "pA = skip_fwd (\<lambda>c. dc = DC c) chars (Suc i)"
  define pB where "pB = skip_fwd (\<lambda>c. c = UNICODE_SPACE) chars pA"
  define p1 where "p1 = skip_space_back chars (pB - 1)"
  define dc1 where "dc1 = DC (chars ! p1)"
  have next_eq: "wordNext DC chars i = pB"
    using True by (simp add: wordNext_def Let_def dc_def pA_def pB_def)
  have pA_ge: "Suc i \<le> pA" unfolding pA_def by (rule skip_fwd_ge)
  have pB_ge: "pA \<le> pB" unfolding pB_def by (rule skip_fwd_ge)
  have pB_pos: "pB \<noteq> 0" using pA_ge pB_ge by simp
  have prev_eq: "wordPrev DC chars pB = skip_class_back DC chars dc1 p1"
    using pB_pos by (simp add: wordPrev_def Let_def p1_def dc1_def)
  have p1_le: "p1 \<le> pB - 1" unfolding p1_def by (rule skip_space_back_le)
  show ?thesis
  proof (cases "p1 \<le> i")
    case True
    have "skip_class_back DC chars dc1 p1 \<le> p1" by (rule skip_class_back_le)
    with True show ?thesis by (simp add: next_eq prev_eq)
  next
    case False
    then have p1_pos: "p1 \<noteq> 0" by simp
    have nsp: "chars ! p1 \<noteq> UNICODE_SPACE"
      using skip_space_back_stop [of chars "pB - 1"] p1_pos by (simp add: p1_def)
    have p1_lt_pA: "p1 < pA"
    proof (rule ccontr)
      assume "\<not> p1 < pA"
      then have "pA \<le> p1" by simp
      moreover have "p1 < pB" using p1_le pB_pos by simp
      ultimately have "chars ! p1 = UNICODE_SPACE"
        unfolding pB_def by (rule skip_fwd_holds)
      with nsp show False by simp
    qed
    have run: "dc = DC (chars ! j)" if "i \<le> j" "j < pA" for j
    proof (cases "j = i")
      case True
      then show ?thesis by (simp add: dc_def)
    next
      case False
      with that have "Suc i \<le> j" by simp
      then show ?thesis using that(2) unfolding pA_def by (rule skip_fwd_holds)
    qed
    have dc1_eq: "dc1 = dc" using run [of p1] False p1_lt_pA by (simp add: dc1_def)
    have "skip_class_back DC chars dc1 p1 \<le> i"
    proof (rule skip_class_back_reach)
      show "i \<le> p1" using False by simp
      fix j assume "i \<le> j" "j < p1"
      then show "DC (chars ! j) = dc1" using run [of j] p1_lt_pA dc1_eq by simp
    qed
    then show ?thesis by (simp add: next_eq prev_eq)
  qed
qed

subsection \<open>The invariants of the reachable states\<close>

lemma flushBuffer_fields [simp]:
  "buffer (flushBuffer env s) = buffer s"
  "bufferCursor (flushBuffer env s) = min (bufferCursor s) (length (buffer s))"
  "bufferDirty (flushBuffer env s) = False"
  "popups (flushBuffer env s) = popups s"
  "history (flushBuffer env s) = history s"
  "insertMode (flushBuffer env s) = insertMode s"
  "controlKeyState (flushBuffer env s) = controlKeyState s"
  "ctrlWakeupMask (flushBuffer env s) = ctrlWakeupMask s"
  "InputMode (flushBuffer env s) = InputMode s"
  by (simp_all add: flushBuffer_def Let_def split: prod.splits)


lemma popupsDone_fields [simp]:
  "popups (popupsDone env s) = []"
  "buffer (popupsDone env s) = buffer s"
  "bufferCursor (popupsDone env s) = bufferCursor s"
  "bufferDirty (popupsDone env s) = bufferDirty s"
  "history (popupsDone env s) = history s"
  "insertMode (popupsDone env s) = insertMode s"
  "controlKeyState (popupsDone env s) = controlKeyState s"
  "ctrlWakeupMask (popupsDone env s) = ctrlWakeupMask s"
  "InputMode (popupsDone env s) = InputMode s"
  "distanceCursor (popupsDone env s) = distanceCursor s"
  "distanceEnd (popupsDone env s) = distanceEnd s"
  by (simp_all add: popupsDone_def)

lemma popupDrawCommandList_kind:
  "popupDrawCommandList env h p sc = (p', sc') \<Longrightarrow> kind p' = kind p"
  by (auto simp add: popupDrawCommandList_def Let_def split: prod.splits)

lemma popupInit_effect:
  assumes "popupInit env k cRect bRect w h s = Inr (ok, s')"
  shows "sameLine s s' \<and> (\<exists>p. popups s' = popups s @ [p] \<and> kind p = k)"
  using assms
  by (auto simp add: popupInit_def Let_def sameLine_def
           split: option.splits prod.splits sum.splits PopupKind.splits
           dest: popupDrawCommandList_kind)

lemma flushBuffer_popups_update:
  "flushBuffer env (s\<lparr>popups := ps\<rparr>) = (flushBuffer env s)\<lparr>popups := ps\<rparr>"
  by (simp add: flushBuffer_def Let_def echoInput_def split: prod.splits)


lemma popupPush_effect:
  assumes "popupPush env k s = Inr s'"
  shows "sameLine s s' \<and> (popups s' = [] \<or> popups s' = popups s \<or> (\<exists>p. popups s' = popups s @ [p] \<and> kind p = k))"
  using assms
  by (auto simp add: popupPush_def Let_def sameLine_def
           split: prod.splits sum.splits if_splits bool.splits
           dest!: popupInit_effect)

lemma wstring_insert_length:
  "wstring_insert b pos ch = Inr b' \<Longrightarrow> pos \<le> length b \<and> length b' = Suc (length b)"
  by (auto simp add: wstring_insert_def split: if_splits)

lemma wstring_erase_length:
  "wstring_erase b pos n = Inr b' \<Longrightarrow> pos \<le> length b \<and> pos \<le> length b'"
  by (auto simp add: wstring_erase_def split: if_splits)

lemma wstring_replace_length:
  "wstring_replace b pos n str = Inr b' \<Longrightarrow> pos \<le> length b \<and> pos + length str \<le> length b'"
  by (auto simp add: wstring_replace_def split: if_splits)

lemma handleChar_popups:
  "handleChar env wch m s = Inr (d, s') \<Longrightarrow> popups s' = popups s"
  by (auto simp add: handleChar_def Let_def split: if_splits sum.splits)

lemma handleChar_cursor:
  "handleChar env wch m s = Inr (d, s') \<Longrightarrow> bufferCursor s' \<le> length (buffer s')"
  by (auto simp add: handleChar_def Let_def split: if_splits sum.splits
           dest!: wstring_insert_length wstring_erase_length wstring_replace_length)


lemma wstring_substr_length:
  "wstring_substr str pos n = Inr sub \<Longrightarrow> length sub = min n (length str - pos)"
  by (auto simp add: wstring_substr_def split: if_splits)

lemma find_from_bounds:
  "find_from cs ch i = Some j \<Longrightarrow> i \<le> j \<and> j < i + length cs"
  by (induction cs arbitrary: i) (fastforce split: if_splits)+

lemma wstring_find_bounds:
  "wstring_find str ch pos = Some j \<Longrightarrow> pos \<le> j \<and> j < length str"
  by (cases "pos \<le> length str") (auto simp add: wstring_find_def dest!: find_from_bounds)

lemmas vkey_defs =
  vkey_ESCAPE_def vkey_HOME_def vkey_END_def vkey_LEFT_def vkey_RIGHT_def vkey_INSERT_def
  vkey_DELETE_def vkey_history_def vkey_F3_def vkey_F7_def vkey_F8_def

lemma popupPush_cursor:
  "popupPush env k s = Inr s' \<Longrightarrow> bufferCursor s \<le> length (buffer s) \<Longrightarrow>
   bufferCursor s' \<le> length (buffer s')"
  by (auto simp add: sameLine_def dest!: popupPush_effect)


lemma handleVkey_cursor:
  assumes "handleVkey env vkey m s = Inr s'" "graphemeContract env"
    "bufferCursor s \<le> length (buffer s)"
  shows "bufferCursor s' \<le> length (buffer s')"
proof -
  have prev: "GraphemePrev env t i \<le> i" for t i
    using assms(2) by (simp add: graphemeContract_def)
  have nxt: "i < length t \<Longrightarrow> GraphemeNext env t i \<le> length t" for t i
    using assms(2) by (simp add: graphemeContract_def)
  have wp: "wordPrev (DelimiterClass env) (buffer s) (bufferCursor s) \<le> length (buffer s)"
    using wordPrev_le [of "DelimiterClass env" "buffer s" "bufferCursor s"] assms(3) by simp
  have gp: "GraphemePrev env (buffer s) (bufferCursor s) \<le> length (buffer s)"
    using prev [of "buffer s" "bufferCursor s"] assms(3) by simp
  have wn: "wordNext (DelimiterClass env) (buffer s) (bufferCursor s) \<le> length (buffer s)"
    using wordNext_le_length [OF assms(3)] .
  show ?thesis
    using assms(1,3) wp gp wn nxt [of "bufferCursor s" "buffer s"]
    by (auto simp add: handleVkey_def vkey_defs Let_def replaceBuffer_def
             split: if_splits sum.splits option.splits prod.splits
             dest!: wstring_erase_length wstring_replace_length wstring_substr_length
                    popupPush_cursor handleChar_cursor)
qed

lemma popupPush_popups:
  "popupPush env k s = Inr s' \<Longrightarrow>
   popups s' = [] \<or> popups s' = popups s \<or> (\<exists>p. popups s' = popups s @ [p] \<and> kind p = k)"
  by (auto dest!: popupPush_effect)


lemma handleVkey_popups:
  "handleVkey env vkey m s = Inr s' \<Longrightarrow> popups s = [] \<Longrightarrow> length (popups s') \<le> 1"
  by (auto simp add: handleVkey_def vkey_defs Let_def replaceBuffer_def
           split: if_splits sum.splits option.splits prod.splits
           dest!: popupPush_popups handleChar_popups)

lemma setTopPopup_fields [simp]:
  "popups (setTopPopup p s) = butlast (popups s) @ [p]"
  "buffer (setTopPopup p s) = buffer s"
  "bufferCursor (setTopPopup p s) = bufferCursor s"
  "distanceCursor (setTopPopup p s) = distanceCursor s"
  "distanceEnd (setTopPopup p s) = distanceEnd s"
  "history (setTopPopup p s) = history s"
  by (simp_all add: setTopPopup_def)

lemma copyToChar_cursor:
  "popupHandleCopyToCharInput env wch vkey s = Inr s' \<Longrightarrow>
   bufferCursor s \<le> length (buffer s) \<Longrightarrow> bufferCursor s' \<le> length (buffer s')"
  by (auto simp add: popupHandleCopyToCharInput_def Let_def
           split: if_splits sum.splits option.splits
           dest!: wstring_replace_length wstring_substr_length wstring_find_bounds)

lemma copyFromChar_cursor:
  "popupHandleCopyFromCharInput env wch vkey s = Inr s' \<Longrightarrow>
   bufferCursor s \<le> length (buffer s) \<Longrightarrow> bufferCursor s' \<le> length (buffer s')"
  by (auto simp add: popupHandleCopyFromCharInput_def Let_def
           split: if_splits sum.splits option.splits
           dest!: wstring_erase_length)

lemma commandNumber_cursor:
  "popupHandleCommandNumberInput env p wch vkey s = Inr s' \<Longrightarrow>
   bufferCursor s \<le> length (buffer s) \<Longrightarrow> bufferCursor s' \<le> length (buffer s')"
  by (auto simp add: popupHandleCommandNumberInput_def Let_def replaceBuffer_def
           split: if_splits sum.splits option.splits prod.splits)

lemma commandList_cursor:
  "popupHandleCommandListInput env p wch vkey m s = Inr (d, s') \<Longrightarrow>
   bufferCursor s \<le> length (buffer s) \<Longrightarrow> bufferCursor s' \<le> length (buffer s')"
  by (auto simp add: popupHandleCommandListInput_def Let_def replaceBuffer_def
           split: if_splits sum.splits option.splits prod.splits
           dest!: popupPush_cursor handleChar_cursor)

lemma popupHandleInput_cursor:
  assumes "popupHandleInput env wch vkey m s = Inr (d, s')"
    "bufferCursor s \<le> length (buffer s)"
  shows "bufferCursor s' \<le> length (buffer s')"
  using assms
  by (auto simp add: popupHandleInput_def Let_def
           split: if_splits sum.splits PopupKind.splits
           dest: copyToChar_cursor copyFromChar_cursor commandNumber_cursor commandList_cursor)






lemma copyToChar_popups:
  "popupHandleCopyToCharInput env wch vkey s = Inr s' \<Longrightarrow> popups s' = [] \<or> popups s' = popups s"
  by (auto simp add: popupHandleCopyToCharInput_def Let_def
           split: if_splits sum.splits option.splits)

lemma copyFromChar_popups:
  "popupHandleCopyFromCharInput env wch vkey s = Inr s' \<Longrightarrow> popups s' = [] \<or> popups s' = popups s"
  by (auto simp add: popupHandleCopyFromCharInput_def Let_def
           split: if_splits sum.splits option.splits)

lemma map_kind_butlast:
  "ps \<noteq> [] \<Longrightarrow> map kind (butlast ps) @ [kind (last ps)] = map kind ps"
  by (induction ps) auto

lemma commandNumber_popups:
  "popupHandleCommandNumberInput env (last (popups s)) wch vkey s = Inr s' \<Longrightarrow> popups s \<noteq> [] \<Longrightarrow>
   popups s' = [] \<or> map kind (popups s') = map kind (popups s)"
  by (auto simp add: popupHandleCommandNumberInput_def Let_def replaceBuffer_def map_kind_butlast
           split: if_splits sum.splits option.splits prod.splits)

lemma commandList_popups:
  "popupHandleCommandListInput env (last (popups s)) wch vkey m s = Inr (d, s') \<Longrightarrow> popups s \<noteq> [] \<Longrightarrow>
   popups s' = [] \<or> map kind (popups s') = map kind (popups s)
   \<or> (\<exists>q. popups s' = popups s @ [q] \<and> kind q = CommandNumber)"
  by (auto simp add: popupHandleCommandListInput_def Let_def replaceBuffer_def map_kind_butlast
           split: if_splits sum.splits option.splits prod.splits
           dest!: popupPush_popups handleChar_popups popupDrawCommandList_kind)

lemma popupStackOk_simps [simp]:
  "popupStackOk []"
  "popupStackOk [k]"
  "popupStackOk [k, k'] = (k = CommandList \<and> k' = CommandNumber)"
  by (auto simp add: popupStackOk_def)

lemma popupStackOk_cases:
  "popupStackOk ks \<Longrightarrow> ks = [] \<or> (\<exists>k. ks = [k]) \<or> ks = [CommandList, CommandNumber]"
  by (cases ks; cases "tl ks"; cases "tl (tl ks)") (auto simp add: popupStackOk_def)

lemma popupHandleInput_stack:
  assumes "popupHandleInput env wch vkey m s = Inr (d, s')"
    "popupStackOk (map kind (popups s))"
  shows "popupStackOk (map kind (popups s'))"
proof (cases "popups s = []")
  case True
  with assms show ?thesis by (simp add: popupHandleInput_def)
next
  case False
  note ne = this
  show ?thesis
  proof (cases "kind (last (popups s))")
    case CopyToChar
    with assms ne show ?thesis
      by (auto simp add: popupHandleInput_def Let_def split: sum.splits dest!: copyToChar_popups)
  next
    case CopyFromChar
    with assms ne show ?thesis
      by (auto simp add: popupHandleInput_def Let_def split: sum.splits dest!: copyFromChar_popups)
  next
    case CommandNumber
    with assms ne show ?thesis
      by (auto simp add: popupHandleInput_def Let_def split: sum.splits dest!: commandNumber_popups)
  next
    case CommandList
    from popupStackOk_cases [OF assms(2)] ne CommandList
    obtain p where one: "popups s = [p]" "kind p = CommandList"
      by (cases "popups s"; cases "tl (popups s)") (auto simp add: last_map [symmetric] simp del: last_map)
    from assms(1) ne CommandList
    have "popupHandleCommandListInput env (last (popups s)) wch vkey m s = Inr (d, s')"
      by (simp add: popupHandleInput_def Let_def)
    from commandList_popups [OF this ne] one show ?thesis by auto
  qed
qed

lemma processEvent_stack:
  assumes "processEvent env ev s = Inr (d, s')" "popupStackOk (map kind (popups s))"
  shows "popupStackOk (map kind (popups s'))"
proof (cases ev)
  case (InputError st)
  with assms show ?thesis by (simp add: processEvent_def)
next
  case (KeyEvent c special m)
  show ?thesis
  proof (cases "popups s = []")
    case False
    with assms KeyEvent show ?thesis
      by (auto simp add: processEvent_def dest: popupHandleInput_stack)
  next
    case True
    show ?thesis
    proof (cases special)
      case True
      with assms KeyEvent \<open>popups s = []\<close>
      obtain s1 where "handleVkey env c m s = Inr s1" "s' = s1"
        by (auto simp add: processEvent_def split: sum.splits)
      from handleVkey_popups [OF this(1) \<open>popups s = []\<close>] this(2)
      have "length (popups s') \<le> 1" by simp
      then show ?thesis by (cases "popups s'") auto
    next
      case False
      with assms KeyEvent \<open>popups s = []\<close> show ?thesis
        by (auto simp add: processEvent_def dest!: handleChar_popups)
    qed
  qed
qed

lemma processEvent_cursor:
  assumes "processEvent env ev s = Inr (d, s')" "graphemeContract env"
    "bufferCursor s \<le> length (buffer s)"
  shows "bufferCursor s' \<le> length (buffer s')"
  using assms
  by (auto simp add: processEvent_def split: input_event.splits if_splits sum.splits
           dest: popupHandleInput_cursor handleVkey_cursor handleChar_cursor)


lemma COOKED_READ_DATA_initial:
  assumes "COOKED_READ_DATA env sc mode wakeup initialData ho = Inr s"
  shows "popups s = [] \<and> bufferCursor s = length (buffer s) \<and> distanceEnd s = distanceCursor s"
  using assms
  by (auto simp add: COOKED_READ_DATA_def Let_def split: if_splits sum.splits)

lemma EraseBeforeResize_fields:
  "popups (EraseBeforeResize env s) = []"
  "buffer (EraseBeforeResize env s) = buffer s"
  "bufferCursor (EraseBeforeResize env s) = bufferCursor s"
  by (simp_all add: EraseBeforeResize_def Let_def)


lemma reachable_stack:
  "reachable env s \<Longrightarrow> popupStackOk (map kind (popups s))"
proof (induction rule: reachable.induct)
  case (constructed sc mode wakeup initialData ho s)
  then show ?case by (auto dest: COOKED_READ_DATA_initial)
next
  case (handled s ev d s')
  then show ?case by (auto dest: processEvent_stack)
next
  case (flushed s)
  then show ?case by simp
next
  case (erased s)
  then show ?case by (simp add: EraseBeforeResize_fields)
next
  case (redrawn s)
  then show ?case by (simp add: RedrawAfterResize_def markAsDirty_def flushBuffer_popups_update)
next
  case (insert_mode s b)
  then show ?case by (simp add: SetInsertMode_def)
next
  case (shared s f sc)
  then show ?case by simp
qed

lemma reachable_cursor:
  "reachable env s \<Longrightarrow> graphemeContract env \<Longrightarrow> bufferCursor s \<le> length (buffer s)"
proof (induction rule: reachable.induct)
  case (constructed sc mode wakeup initialData ho s)
  then show ?case by (auto dest: COOKED_READ_DATA_initial)
next
  case (handled s ev d s')
  then show ?case by (auto dest: processEvent_cursor)
next
  case (flushed s)
  then show ?case by simp
next
  case (erased s)
  then show ?case by (simp add: EraseBeforeResize_fields)
next
  case (redrawn s)
  then show ?case by (simp add: RedrawAfterResize_def markAsDirty_def)
next
  case (insert_mode s b)
  then show ?case by (simp add: SetInsertMode_def)
next
  case (shared s f sc)
  then show ?case by simp
qed


lemma reachable_loop:
  "reachable env s \<Longrightarrow> readCharInputLoop env s evs = Inr (d, s') \<Longrightarrow> reachable env s'"
proof (induction evs arbitrary: s)
  case Nil
  then show ?case by simp
next
  case (Cons ev evs)
  from Cons.prems(2) obtain d1 s1 where step: "processEvent env ev s = Inr (d1, s1)"
    by (auto split: sum.splits)
  have r1: "reachable env s1" using Cons.prems(1) step by (rule reachable.handled)
  show ?case
  proof (cases d1)
    case True
    with Cons.prems(2) step have "s' = s1" by simp
    with r1 show ?thesis by simp
  next
    case False
    with Cons.prems(2) step have "readCharInputLoop env s1 evs = Inr (d, s')" by simp
    with r1 show ?thesis by (rule Cons.IH)
  qed
qed

subsection \<open>The model at concrete inputs\<close>

lemmas spec_defs =
  spec_env_def spec_screen_ops_def spec_history_ops_def spec_state_def

lemmas const_defs =
  UNICODE_BACKSPACE_def UNICODE_LINEFEED_def UNICODE_CARRIAGERETURN_def UNICODE_SPACE_def
  EXTKEY_ERASE_PREV_WORD_def VK_ESCAPE_def VK_PRIOR_def VK_NEXT_def VK_END_def VK_HOME_def
  VK_LEFT_def VK_UP_def VK_RIGHT_def VK_DOWN_def VK_INSERT_def VK_DELETE_def VK_F1_def
  VK_F2_def VK_F3_def VK_F4_def VK_F5_def VK_F6_def VK_F7_def VK_F8_def VK_F9_def VK_F10_def
  ENABLE_PROCESSED_INPUT_def ENABLE_ECHO_INPUT_def

lemma spec_constructed:
  "COOKED_READ_DATA spec_env (0, 0) mode wakeup [] ho = Inr (spec_state [] 0 wakeup mode ho)"
  by (simp add: COOKED_READ_DATA_def spec_defs)

lemma spec_graphemeContract: "graphemeContract spec_env"
  by (auto simp add: graphemeContract_def spec_env_def spec_GraphemeNext_def spec_GraphemePrev_def)




text \<open>An ordinary character in insert mode, with no wake-up mask.\<close>

lemma handleChar_insert:
  assumes "ctrlWakeupMask s = 0" "insertMode s" "bufferCursor s \<le> length (buffer s)"
    "wch \<noteq> UNICODE_CARRIAGERETURN" "wch \<noteq> EXTKEY_ERASE_PREV_WORD" "wch \<noteq> UNICODE_BACKSPACE"
  shows "handleChar env wch m s =
           Inr (False, s\<lparr>buffer := take (bufferCursor s) (buffer s) @ [wch] @ drop (bufferCursor s) (buffer s),
                          bufferCursor := bufferCursor s + 1, bufferDirty := True\<rparr>)"
  using assms by (simp add: handleChar_def wstring_insert_def)

lemma handleVkey_HOME:
  "handleVkey env VK_HOME m s =
     Inr (vkey_HOME (IsAnyFlagSet m (LEFT_CTRL_PRESSED OR RIGHT_CTRL_PRESSED)) s)"
  by (simp add: handleVkey_def const_defs)

lemma boundaries_pair:
  "\<not> onGraphemeBoundary spec_env [0xD83D, 0xDE00] 1"
  by (simp add: onGraphemeBoundary_def spec_env_def spec_GraphemeNext_def isHighSurrogate_def
        isLowSurrogate_def)

lemma flush_clean:
  "\<not> bufferDirty s \<Longrightarrow> bufferCursor s \<le> length (buffer s) \<Longrightarrow> flushBuffer env s = s"
  by (simp add: flushBuffer_def Let_def min_def)

lemma flush_no_echo:
  "\<not> echoInput s \<Longrightarrow> bufferCursor s \<le> length (buffer s) \<Longrightarrow>
   flushBuffer env s = s\<lparr>bufferDirty := False\<rparr>"
  by (cases "bufferDirty s") (simp_all add: flushBuffer_def Let_def min_def echoInput_def)

lemma processEvent_char:
  "popups s = [] \<Longrightarrow> processEvent env (KeyEvent c False m) s = handleChar env c m s"
  by (simp add: processEvent_def)

lemma processEvent_vkey:
  "popups s = [] \<Longrightarrow>
   processEvent env (KeyEvent c True m) s =
     (case handleVkey env c m s of Inl e \<Rightarrow> Inl e | Inr s' \<Rightarrow> Inr (False, s'))"
  by (simp add: processEvent_def)

lemma spec_step_low:
  "processEvent spec_env (KeyEvent 0xDE00 False 0) (spec_state [] 0 0 5 None)
     = Inr (False, (spec_state [0xDE00] 1 0 5 None)\<lparr>bufferDirty := True\<rparr>)"
  by (simp add: processEvent_char handleChar_insert spec_state_def const_defs)

lemma spec_step_home:
  "processEvent spec_env (KeyEvent VK_HOME True 0)
     ((spec_state [0xDE00] 1 0 5 None)\<lparr>bufferDirty := True\<rparr>)
     = Inr (False, (spec_state [0xDE00] 0 0 5 None)\<lparr>bufferDirty := True\<rparr>)"
  by (simp add: processEvent_vkey handleVkey_HOME vkey_HOME_def spec_state_def IsAnyFlagSet_def)

lemma spec_step_high:
  "processEvent spec_env (KeyEvent 0xD83D False 0)
     ((spec_state [0xDE00] 0 0 5 None)\<lparr>bufferDirty := True\<rparr>)
     = Inr (False, (spec_state [0xD83D, 0xDE00] 1 0 5 None)\<lparr>bufferDirty := True\<rparr>)"
  by (simp add: processEvent_char handleChar_insert spec_state_def const_defs)

lemma spec_loop_pair:
  "readCharInputLoop spec_env (spec_state [] 0 0 5 None)
     [KeyEvent 0xDE00 False 0, KeyEvent VK_HOME True 0, KeyEvent 0xD83D False 0]
     = Inr (False, (spec_state [0xD83D, 0xDE00] 1 0 5 None)\<lparr>bufferDirty := True\<rparr>)"
  by (simp only: readCharInputLoop.simps spec_step_low spec_step_home spec_step_high
        sum.case prod.case if_False)

lemma spec_reachable_low:
  "reachable spec_env ((spec_state [0xDE00] 1 0 5 None)\<lparr>bufferDirty := True\<rparr>)"
  using reachable.handled [OF reachable.constructed [OF spec_constructed] spec_step_low] .

lemma wakeup_bit:
  "wch < 0x20 \<Longrightarrow> bit w (unat wch) \<Longrightarrow> w \<noteq> 0 \<and> w AND push_bit (unat wch) 1 \<noteq> (0 :: 32 word)"
  by (auto simp add: bit_iff_and_push_bit_not_eq_0)

lemma handleChar_wakeup:
  assumes "wch < 0x20" "bit (ctrlWakeupMask s) (unat wch)" "bufferCursor s \<le> length (buffer s)"
  shows "handleChar env wch modifiers s =
           Inr (True, (flushBuffer env s)
                        \<lparr>buffer := take (bufferCursor s) (buffer s) @ [wch]
                                     @ drop (bufferCursor s) (buffer s),
                         bufferCursor := bufferCursor s + 1,
                         controlKeyState := modifiers\<rparr>)"
  using wakeup_bit [OF assms(1,2)] assms(1,3)
  by (simp add: handleChar_def Let_def wstring_insert_def min_def)

lemma bit13: "bit w (13::nat) \<longleftrightarrow> w \<noteq> 0 \<and> w AND push_bit (unat UNICODE_CARRIAGERETURN) 1 \<noteq> (0 :: 32 word)"
  by (auto simp add: bit_iff_and_push_bit_not_eq_0 UNICODE_CARRIAGERETURN_def)

lemma handleChar_return:
  assumes "\<not> bit (ctrlWakeupMask s) 13"
  shows "handleChar env UNICODE_CARRIAGERETURN modifiers s =
           Inr (True, s\<lparr>buffer := buffer s @ (if processedInput s
                                                then [UNICODE_CARRIAGERETURN, UNICODE_LINEFEED]
                                                else [UNICODE_CARRIAGERETURN]),
                          bufferCursor := length (buffer s) + (if processedInput s then 2 else 1),
                          bufferDirty := True\<rparr>)"
  using assms unfolding bit13
  by (auto simp add: handleChar_def newlineSuffix_def UNICODE_CARRIAGERETURN_def)

lemma bit_9: "bit (0x200 :: 32 word) (unat (9 :: wchar))"
  by simp

lemma foldl_const: "foldl (\<lambda>a b. a) a0 xs = a0"
  by (induction xs) auto

lemma spec_drawBorder: "drawBorder spec_env r w sc = sc"
  by (simp add: drawBorder_def spec_env_def spec_screen_ops_def foldl_const split: prod.splits)

lemma spec_popupDrawPrompt: "popupDrawPrompt spec_env p rid sc = sc"
  by (simp add: popupDrawPrompt_def spec_env_def spec_screen_ops_def split: prod.splits)

lemma spec_popupsDone: "popupsDone spec_env s = s\<lparr>popups := []\<rparr>"
proof -
  have "foldl (\<lambda>sc p. restorePopup spec_env p sc) sc ps = sc" for sc ps
    by (induction ps) (simp_all add: restorePopup_def spec_env_def spec_screen_ops_def)
  then show ?thesis
    by (simp add: popupsDone_def) (simp add: spec_env_def spec_screen_ops_def)
qed

lemma spec_ops:
  "GetViewport (scr spec_env) sc = ((0, 0), (80, 25))"
  "ReadConsoleOutput (scr spec_env) (x1, y1, x2, y2) sc
     = Some (replicate (nat ((x2 - x1) * (y2 - y1))) (0x20, 7), (x1, y1, x2, y2))"
  "SetIsPopupShown (scr spec_env) b sc = sc"
  "RowWrite (scr spec_env) y inverted str cb cl sc = sc"
  "GetNumberOfCommands (hist spec_env) h = int (length (fst h))"
  "GetCommands (hist spec_env) h = fst h"
  "LastDisplayed (hist spec_env) h = snd h"
  "RetrieveNth (hist spec_env) = spec_RetrieveNth"
  "GetNth (hist spec_env) = spec_GetNth"
  "GetLastCommand (hist spec_env) h = (if fst h = [] then [] else last (fst h))"
  by (simp_all add: spec_env_def spec_screen_ops_def spec_history_ops_def)

lemma spec_push_number:
  assumes "\<not> bufferDirty s" "bufferCursor s \<le> length (buffer s)"
  shows "popupPush spec_env CommandNumber s = Inr (s\<lparr>popups := popups s @ [spec_number_popup]\<rparr>)"
  using assms
  by (simp add: popupPush_def proposedSize_def CommandNumberMaxInputLength_def popupInit_def
        spec_ops spec_drawBorder spec_popupDrawPrompt flush_clean flushBuffer_popups_update
        spec_number_popup_def UNICODE_SPACE_def Let_def)

lemma spec_state_fields [simp]:
  "buffer (spec_state b c w m h) = b"
  "bufferCursor (spec_state b c w m h) = c"
  "bufferDirty (spec_state b c w m h) = False"
  "insertMode (spec_state b c w m h) = True"
  "popups (spec_state b c w m h) = []"
  "history (spec_state b c w m h) = h"
  "ctrlWakeupMask (spec_state b c w m h) = w"
  "InputMode (spec_state b c w m h) = m"
  by (simp_all add: spec_state_def)

lemma spec_push_list:
  assumes "\<not> bufferDirty s" "bufferCursor s \<le> length (buffer s)" "history s = Some spec_hist3"
  shows "popupPush spec_env CommandList s = Inr (s\<lparr>popups := popups s @ [spec_list_popup]\<rparr>)"
proof -
  have size: "proposedSize spec_env CommandList (Some spec_hist3) = Inr (40, 10)"
    by (simp add: proposedSize_def spec_ops spec_hist3_def integerLog10_def clamp_def INT_MAX_def)
  have draw: "popupDrawCommandList spec_env spec_hist3
         \<lparr>kind = CommandList, contentRect = (20, 7, 60, 17), backupRect = (19, 6, 61, 18),
            backup = replicate 504 (32, 7), cn_buffer = replicate 6 0,
            cn_bufferSize = 0, cl_selected = snd spec_hist3, cl_top = snd spec_hist3 - 5,
            cl_dirtyHeight = 0\<rparr> sc = (spec_list_popup, sc)" for sc
    by (simp add: popupDrawCommandList_def spec_hist3_def clamp_def foldl_const
          spec_list_popup_def spec_ops Let_def)
  show ?thesis
    using assms
    by (simp add: popupPush_def size popupInit_def draw CommandNumberMaxInputLength_def
        spec_ops spec_drawBorder flush_clean flushBuffer_popups_update Let_def)
qed

lemma spec_step_F7:
  "processEvent spec_env (KeyEvent VK_F7 True 0) (spec_state [] 0 0 5 (Some spec_hist3))
     = Inr (False, (spec_state [] 0 0 5 (Some spec_hist3))\<lparr>popups := [spec_list_popup]\<rparr>)"
proof -
  have "handleVkey spec_env VK_F7 0 (spec_state [] 0 0 5 (Some spec_hist3))
          = popupPush spec_env CommandList (spec_state [] 0 0 5 (Some spec_hist3))"
    by (simp add: handleVkey_def const_defs vkey_F7_def IsAnyFlagSet_def spec_ops
          spec_hist3_def)
  then show ?thesis
    by (simp add: processEvent_vkey spec_push_list)
qed

lemma spec_step_F9_list:
  "processEvent spec_env (KeyEvent VK_F9 True 0)
     ((spec_state [] 0 0 5 (Some spec_hist3))\<lparr>popups := [spec_list_popup]\<rparr>)
     = Inr (False, (spec_state [] 0 0 5 (Some spec_hist3))
                     \<lparr>popups := [spec_list_popup, spec_number_popup]\<rparr>)"
proof -
  have "popupHandleInput spec_env 0 VK_F9 0
          ((spec_state [] 0 0 5 (Some spec_hist3))\<lparr>popups := [spec_list_popup]\<rparr>)
        = (case popupPush spec_env CommandNumber
                  ((spec_state [] 0 0 5 (Some spec_hist3))\<lparr>popups := [spec_list_popup]\<rparr>) of
             Inl e \<Rightarrow> Inl e | Inr s' \<Rightarrow> Inr (False, s'))"
    by (simp add: popupHandleInput_def popupHandleCommandListInput_def spec_state_def
          spec_list_popup_def const_defs)
  then show ?thesis
    by (simp add: processEvent_def spec_push_number spec_state_def)
qed

lemma spec_reachable_two:
  "reachable spec_env ((spec_state [] 0 0 5 (Some spec_hist3))
                         \<lparr>popups := [spec_list_popup, spec_number_popup]\<rparr>)"
  using reachable.handled [OF reachable.handled [OF reachable.constructed [OF spec_constructed]
          spec_step_F7] spec_step_F9_list] .

lemma handleVkey_F6:
  "handleVkey env VK_F6 m s =
     (case handleChar env 0x1a m s of Inl e \<Rightarrow> Inl e | Inr (done, s') \<Rightarrow> Inr s')"
  by (simp add: handleVkey_def const_defs)

lemma bit_26: "bit w (26 :: nat) \<Longrightarrow> bit w (unat (0x1a :: wchar))"
  by simp

lemma processEvent_vkey_continues:
  "popups s = [] \<Longrightarrow> processEvent env (KeyEvent vkey True m) s = Inr (d, s') \<Longrightarrow> \<not> d"
  by (auto simp add: processEvent_vkey split: sum.splits)

lemma processEvent_F6_wakeup:
  assumes "popups s = []" "bit (ctrlWakeupMask s) 26" "bufferCursor s \<le> length (buffer s)"
  shows "processEvent env (KeyEvent VK_F6 True m) s =
           Inr (False, (flushBuffer env s)
                         \<lparr>buffer := take (bufferCursor s) (buffer s) @ [0x1a]
                                      @ drop (bufferCursor s) (buffer s),
                          bufferCursor := bufferCursor s + 1,
                          controlKeyState := m\<rparr>)"
proof -
  have "handleChar env 0x1a m s =
           Inr (True, (flushBuffer env s)
                         \<lparr>buffer := take (bufferCursor s) (buffer s) @ [0x1a]
                                      @ drop (bufferCursor s) (buffer s),
                          bufferCursor := bufferCursor s + 1,
                          controlKeyState := m\<rparr>)"
    using assms(2,3) by (intro handleChar_wakeup bit_26) simp_all
  with assms(1) show ?thesis by (simp add: processEvent_vkey handleVkey_F6)
qed

lemma find_from_None: "find_from cs ch i = None \<longleftrightarrow> ch \<notin> set cs"
  by (induction cs arbitrary: i) auto

lemma wstring_find_None:
  "wstring_find str ch pos = None \<longleftrightarrow> ch \<notin> set (drop pos str)"
  by (simp add: wstring_find_def find_from_None)

lemma copyToChar_not_found:
  assumes "history s = Some h"
    "wch \<notin> set (drop (bufferCursor s) (GetLastCommand (hist env) h))"
  shows "popupHandleCopyToCharInput env wch 0 s = Inr (popupsDone env s)"
  using assms by (simp add: popupHandleCopyToCharInput_def wstring_find_None [symmetric])

lemma spec_push_copy:
  assumes "\<not> bufferDirty s" "bufferCursor s \<le> length (buffer s)"
  shows "popupPush spec_env CopyToChar s = Inr (s\<lparr>popups := popups s @ [spec_copy_popup]\<rparr>)"
  using assms
  by (simp add: popupPush_def proposedSize_def CommandNumberMaxInputLength_def popupInit_def
        spec_ops spec_drawBorder spec_popupDrawPrompt flush_clean flushBuffer_popups_update
        spec_copy_popup_def Let_def)

lemma commandNumber_enter_empty:
  assumes "cn_bufferSize p = 0" "cn_buffer p \<noteq> []"
  shows "popupHandleCommandNumberInput env p UNICODE_CARRIAGERETURN 0 s = Inl InvalidArgument"
proof -
  from assms(2) obtain c cs where "cn_buffer p = c # cs" by (cases "cn_buffer p") auto
  with assms(1) show ?thesis
    by (simp add: popupHandleCommandNumberInput_def cstr_def stoi_def Let_def)
qed

lemma spec_step_F9:
  "processEvent spec_env (KeyEvent VK_F9 True 0) (spec_state [] 0 0 5 (Some spec_hist3))
     = Inr (False, (spec_state [] 0 0 5 (Some spec_hist3))\<lparr>popups := [spec_number_popup]\<rparr>)"
proof -
  have "handleVkey spec_env VK_F9 0 (spec_state [] 0 0 5 (Some spec_hist3))
          = popupPush spec_env CommandNumber (spec_state [] 0 0 5 (Some spec_hist3))"
    by (simp add: handleVkey_def const_defs spec_ops spec_hist3_def)
  then show ?thesis
    by (simp add: processEvent_vkey spec_push_number)
qed

lemma spec_step_enter_empty:
  "processEvent spec_env (KeyEvent UNICODE_CARRIAGERETURN False 0)
     ((spec_state [] 0 0 5 (Some spec_hist3))\<lparr>popups := [spec_number_popup]\<rparr>)
     = Inl InvalidArgument"
proof -
  have "popupHandleCommandNumberInput spec_env spec_number_popup UNICODE_CARRIAGERETURN 0
          ((spec_state [] 0 0 5 (Some spec_hist3))\<lparr>popups := [spec_number_popup]\<rparr>)
        = Inl InvalidArgument"
    by (rule commandNumber_enter_empty) (simp_all add: spec_number_popup_def)
  then show ?thesis
    by (simp add: processEvent_def popupHandleInput_def) (simp add: spec_number_popup_def)
qed



lemma firstLineEnd_missing: "UNICODE_LINEFEED \<notin> set b \<Longrightarrow> firstLineEnd b = 0"
  by (simp add: firstLineEnd_def wstring_find_def find_from_None [THEN iffD2])





lemma handleChar_wakeup_clamped:
  assumes "wch < 0x20" "bit (ctrlWakeupMask s) (unat wch)"
  shows "handleChar env wch modifiers s =
           Inr (True, (flushBuffer env s)
                        \<lparr>buffer := take (min (bufferCursor s) (length (buffer s))) (buffer s) @ [wch]
                                     @ drop (min (bufferCursor s) (length (buffer s))) (buffer s),
                         bufferCursor := min (bufferCursor s) (length (buffer s)) + 1,
                         controlKeyState := modifiers\<rparr>)"
  using wakeup_bit [OF assms(1,2)] assms(1)
  by (simp add: handleChar_def Let_def wstring_insert_def)

lemma decimal_snoc: "decimal (ds @ [d]) = decimal ds * 10 + (uint d - 48)"
  by (simp add: decimal_def)

lemma iswdigit_value: "iswdigit d \<Longrightarrow> 0 \<le> uint d - 48 \<and> uint d - 48 \<le> 9"
  by (simp add: iswdigit_def word_le_def)

lemma decimal_bounds:
  "\<forall>d \<in> set ds. iswdigit d \<Longrightarrow> 0 \<le> decimal ds \<and> decimal ds < 10 ^ length ds"
proof (induction ds rule: rev_induct)
  case Nil
  then show ?case by (simp add: decimal_def)
next
  case (snoc d ds)
  then have ih: "0 \<le> decimal ds" "decimal ds < 10 ^ length ds" by simp_all
  from snoc.prems have "iswdigit d" by simp
  from iswdigit_value [OF this] ih show ?case by (simp add: decimal_snoc)
qed

lemma stoi_digits:
  assumes "ds \<noteq> []" "length ds \<le> 5" "\<forall>d \<in> set ds. iswdigit d"
  shows "stoi ds = Inr (decimal ds)"
proof -
  from assms(1) obtain d ds' where ds: "ds = d # ds'" by (cases ds) auto
  with assms(3) have d: "iswdigit d" by simp
  then have nsp: "\<not> iswspace d" and nsign: "d \<noteq> 0x2D" "d \<noteq> 0x2B"
    by (auto simp add: iswdigit_def iswspace_def word_le_def)
  have tw: "takeWhile iswdigit ds = ds" using assms(3) by (simp add: takeWhile_eq_all_conv)
  have "decimal ds < 10 ^ length ds" "0 \<le> decimal ds" using decimal_bounds [OF assms(3)] by simp_all
  moreover have "(10 :: int) ^ length ds \<le> 10 ^ 5" using assms(2) by (intro power_increasing) simp_all
  ultimately have rng: "\<not> (decimal ds < - 2147483648 \<or> decimal ds > 2147483647)" by simp
  have dw: "dropWhile iswspace ds = ds" using nsp ds by simp
  show ?thesis
    unfolding stoi_def Let_def dw
    using nsign rng assms(1) tw by (simp add: ds)
qed

lemma cstr_digits:
  assumes "\<forall>d \<in> set ds. iswdigit d" "pad \<noteq> []"
  shows "cstr ((ds @ pad)[length ds := 0]) = ds"
proof -
  have nz: "\<forall>d \<in> set ds. d \<noteq> 0" using assms(1) by (auto simp add: iswdigit_def)
  from assms(2) obtain c cs where "pad = c # cs" by (cases pad) auto
  with nz show ?thesis by (simp add: cstr_def list_update_append takeWhile_append2)
qed

text \<open>With one to five digits typed, Enter does what C7 says.\<close>

lemma commandNumber_enter_digits:
  assumes "ds \<noteq> []" "length ds \<le> 5" "\<forall>d \<in> set ds. iswdigit d"
    "cn_buffer p = ds @ replicate (6 - length ds) UNICODE_SPACE" "cn_bufferSize p = length ds"
    "history s = Some h" "RetrieveNth (hist env) (decimal ds) h = (str, h')"
  shows "popupHandleCommandNumberInput env p UNICODE_CARRIAGERETURN 0 s =
           Inr (popupsDone env
                  (replaceBuffer str
                     (setTopPopup (p\<lparr>cn_buffer := (cn_buffer p)[cn_bufferSize p := 0],
                                     cn_bufferSize := cn_bufferSize p + 1\<rparr>)
                        (s\<lparr>history := Some h'\<rparr>))))"
proof -
  have pad: "replicate (6 - length ds) UNICODE_SPACE \<noteq> []" using assms(2) by simp
  have "cstr ((cn_buffer p)[cn_bufferSize p := 0]) = ds"
    using cstr_digits [OF assms(3) pad] assms(4,5) by simp
  then have "stoi (cstr ((cn_buffer p)[cn_bufferSize p := 0])) = Inr (decimal ds)"
    using stoi_digits [OF assms(1-3)] by simp
  with assms(6,7) show ?thesis
    by (simp add: popupHandleCommandNumberInput_def Let_def)
qed

text \<open>The fuel of the two grapheme walks is enough when \<^verbatim>\<open>GraphemeNext\<close> advances.\<close>

lemma pasteWalk_total:
  assumes "\<And>i. i < length cmd \<Longrightarrow> i < GN cmd i"
  shows "length cmd - cmdBeg < fuel \<Longrightarrow> \<exists>r. pasteWalk fuel GN cmd buf cmdBeg bufferBeg = Inr r"
proof (induction fuel arbitrary: cmdBeg bufferBeg)
  case 0
  then show ?case by simp
next
  case (Suc fuel)
  show ?case
  proof (cases "cmdBeg < length cmd")
    case False
    then show ?thesis by simp
  next
    case True
    then have adv: "cmdBeg < GN cmd cmdBeg" by (rule assms)
    show ?thesis
    proof (cases "bufferBeg \<ge> length buf")
      case True
      with \<open>cmdBeg < length cmd\<close> show ?thesis by (simp add: Let_def)
    next
      case False
      have "length cmd - GN cmd cmdBeg < fuel" using Suc.prems adv True by simp
      from Suc.IH [OF this] False True show ?thesis by (simp add: Let_def)
    qed
  qed
qed

lemma initialDistance_total:
  assumes "\<And>i. i < length d \<Longrightarrow> i < GN d i"
  shows "length d - i \<le> fuel \<Longrightarrow> \<exists>r. initialDistance fuel GN d i distance = Inr r"
proof (induction fuel arbitrary: i distance)
  case 0
  then show ?case by simp
next
  case (Suc fuel)
  show ?case
  proof (cases "i < length d")
    case False
    then show ?thesis by simp
  next
    case True
    then have "i < GN d i" by (rule assms)
    with Suc.prems True have "length d - GN d i \<le> fuel" by simp
    from Suc.IH [OF this] True show ?thesis by simp
  qed
qed

















subsection \<open>The claims\<close>

text \<open>
  C1 (as stated): after any handler the caret is between 0 and the length of the
  buffer, and at every suspension point it lies on a grapheme boundary. The
  second half fails: the handlers insert single code units. A low surrogate is
  typed, then Home, then a high surrogate, and the queue blocks: the buffer holds
  one surrogate pair and the caret stands between its halves.
\<close>

theorem caret_boundary_claim_fails:
  "readAndFlush spec_env (spec_state [] 0 0 5 None)
     [KeyEvent 0xDE00 False 0, KeyEvent VK_HOME True 0, KeyEvent 0xD83D False 0]
   = Inr (False, flushBuffer spec_env ((spec_state [0xD83D, 0xDE00] 1 0 5 None)\<lparr>bufferDirty := True\<rparr>))
   \<and> buffer (flushBuffer spec_env ((spec_state [0xD83D, 0xDE00] 1 0 5 None)\<lparr>bufferDirty := True\<rparr>))
       = [0xD83D, 0xDE00]
   \<and> bufferCursor (flushBuffer spec_env ((spec_state [0xD83D, 0xDE00] 1 0 5 None)\<lparr>bufferDirty := True\<rparr>))
       = 1
   \<and> \<not> onGraphemeBoundary spec_env [0xD83D, 0xDE00] 1"
  unfolding readAndFlush_def spec_loop_pair using boundaries_pair by (simp add: spec_state_def)

text \<open>
  C1 (amended): in every state a read can reach, so after every handler and at
  every suspension point, the caret is between 0 and the length of the buffer,
  provided \<^verbatim>\<open>GraphemePrev\<close> does not move forward and \<^verbatim>\<open>GraphemeNext\<close> stays in
  the text. Nothing is claimed about grapheme boundaries.
\<close>

theorem caret_in_bounds:
  "graphemeContract env \<Longrightarrow> reachable env s \<Longrightarrow> bufferCursor s \<le> length (buffer s)"
  by (rule reachable_cursor)

theorem caret_in_bounds_witness:
  "graphemeContract spec_env
   \<and> reachable spec_env ((spec_state [0xDE00] 1 0 5 None)\<lparr>bufferDirty := True\<rparr>)
   \<and> bufferCursor ((spec_state [0xDE00] 1 0 5 None)\<lparr>bufferDirty := True\<rparr>)
       \<le> length (buffer ((spec_state [0xDE00] 1 0 5 None)\<lparr>bufferDirty := True\<rparr>))"
  using caret_in_bounds [OF spec_graphemeContract spec_reachable_low]
    spec_graphemeContract spec_reachable_low
  by blast

text \<open>
  C2 (as stated): for every text and position, \<open>word_right (word_left i) \<le> i\<close> and
  \<open>word_left (word_right i) \<ge> i\<close>. Both fail on the text "aa" at position 1:
  \<^verbatim>\<open>_wordPrev\<close> goes to 0, from where \<^verbatim>\<open>_wordNext\<close> goes to 2; and
  \<^verbatim>\<open>_wordNext\<close> goes to 2, from where \<^verbatim>\<open>_wordPrev\<close> goes to 0.
\<close>

theorem word_motion_claim_fails:
  "\<not> (wordNext spec_DelimiterClass [0x61, 0x61] (wordPrev spec_DelimiterClass [0x61, 0x61] 1) \<le> 1)
   \<and> \<not> (wordPrev spec_DelimiterClass [0x61, 0x61] (wordNext spec_DelimiterClass [0x61, 0x61] 1) \<ge> 1)"
  by code_simp

text \<open>
  C2 (amended): the inequalities hold the other way round. For every delimiter
  table, every text and every position \<open>i\<close> in it, going a word left and then a
  word right ends at or after \<open>i\<close>, and going a word right and then a word left
  ends at or before \<open>i\<close>.
\<close>

theorem word_motion_round_trip:
  "i \<le> length chars \<Longrightarrow>
     i \<le> wordNext DC chars (wordPrev DC chars i) \<and> wordPrev DC chars (wordNext DC chars i) \<le> i"
  using wordNext_wordPrev_ge wordPrev_wordNext_le by blast

theorem word_motion_round_trip_witness:
  "(2::nat) \<le> length [0x66, 0x6F, 0x6F, 0x20, 0x62 :: wchar]
   \<and> 2 \<le> wordNext spec_DelimiterClass [0x66, 0x6F, 0x6F, 0x20, 0x62]
            (wordPrev spec_DelimiterClass [0x66, 0x6F, 0x6F, 0x20, 0x62] 2)
   \<and> wordPrev spec_DelimiterClass [0x66, 0x6F, 0x6F, 0x20, 0x62]
        (wordNext spec_DelimiterClass [0x66, 0x6F, 0x6F, 0x20, 0x62] 2) \<le> 2
   \<and> wordNext spec_DelimiterClass [0x66, 0x6F, 0x6F, 0x20, 0x62]
        (wordPrev spec_DelimiterClass [0x66, 0x6F, 0x6F, 0x20, 0x62] 2) = 4
   \<and> wordPrev spec_DelimiterClass [0x66, 0x6F, 0x6F, 0x20, 0x62]
        (wordNext spec_DelimiterClass [0x66, 0x6F, 0x6F, 0x20, 0x62] 2) = 0"
proof -
  have h: "(2::nat) \<le> length [0x66, 0x6F, 0x6F, 0x20, 0x62 :: wchar]" by simp
  have v1: "wordNext spec_DelimiterClass [0x66, 0x6F, 0x6F, 0x20, 0x62]
        (wordPrev spec_DelimiterClass [0x66, 0x6F, 0x6F, 0x20, 0x62] 2) = 4"
    by code_simp
  have v2: "wordPrev spec_DelimiterClass [0x66, 0x6F, 0x6F, 0x20, 0x62]
        (wordNext spec_DelimiterClass [0x66, 0x6F, 0x6F, 0x20, 0x62] 2) = 0"
    by code_simp
  from word_motion_round_trip [OF h, of spec_DelimiterClass] h v1 v2 show ?thesis by blast
qed

text \<open>
  C3: for every character below 0x20 whose bit is set in \<^verbatim>\<open>ctrlWakeupMask\<close>,
  \<^verbatim>\<open>_handleChar\<close> flushes the echo, inserts the character at the caret whatever
  the insert mode is, advances the caret by one code unit, stores the modifiers in
  \<^verbatim>\<open>controlKeyState\<close> and returns true (the read is complete). The caret is the
  one the flush leaves: \<^verbatim>\<open>_bufferCursor\<close>, which the flush clamps to the size of the
  buffer.
\<close>

theorem ctrl_wakeup_commits:
  "wch < 0x20 \<Longrightarrow> bit (ctrlWakeupMask s) (unat wch) \<Longrightarrow>
   handleChar env wch modifiers s =
     Inr (True, (flushBuffer env s)
                  \<lparr>buffer := take (min (bufferCursor s) (length (buffer s))) (buffer s) @ [wch]
                               @ drop (min (bufferCursor s) (length (buffer s))) (buffer s),
                   bufferCursor := min (bufferCursor s) (length (buffer s)) + 1,
                   controlKeyState := modifiers\<rparr>)"
  by (rule handleChar_wakeup_clamped)

theorem ctrl_wakeup_commits_witness:
  "(9 :: wchar) < 0x20
   \<and> bit (ctrlWakeupMask ((spec_state [0x61, 0x62] 2 0x200 5 None)\<lparr>insertMode := False\<rparr>))
         (unat (9 :: wchar))
   \<and> handleChar spec_env 9 3 ((spec_state [0x61, 0x62] 2 0x200 5 None)\<lparr>insertMode := False\<rparr>)
       = Inr (True, (spec_state [0x61, 0x62, 9] 3 0x200 5 None)
                      \<lparr>insertMode := False, controlKeyState := 3\<rparr>)"
  using ctrl_wakeup_commits [of 9 "(spec_state [0x61, 0x62] 2 0x200 5 None)\<lparr>insertMode := False\<rparr>" spec_env 3]
    bit_9
  by (simp add: spec_state_def flush_clean)

text \<open>
  C4 (as stated): for every buffer state, a carriage return appends the newline
  suffix, moves the caret to the end, marks the buffer dirty and commits. It
  fails when bit 13 of \<^verbatim>\<open>ctrlWakeupMask\<close> is set: the wake-up branch comes first and
  inserts the bare carriage return at the caret, here at the front of "ab".
\<close>

theorem carriage_return_claim_fails:
  "handleChar spec_env UNICODE_CARRIAGERETURN 0 (spec_state [0x61, 0x62] 0 0x2000 5 None)
     = Inr (True, spec_state [0x0D, 0x61, 0x62] 1 0x2000 5 None)
   \<and> processedInput (spec_state [0x61, 0x62] 0 0x2000 5 None)
   \<and> buffer (spec_state [0x0D, 0x61, 0x62] 1 0x2000 5 None) \<noteq> [0x61, 0x62, 0x0D, 0x0A]
   \<and> bufferCursor (spec_state [0x0D, 0x61, 0x62] 1 0x2000 5 None)
       \<noteq> length (buffer (spec_state [0x0D, 0x61, 0x62] 1 0x2000 5 None))
   \<and> \<not> bufferDirty (spec_state [0x0D, 0x61, 0x62] 1 0x2000 5 None)"
proof -
  have b: "bit (0x2000 :: 32 word) (unat UNICODE_CARRIAGERETURN)"
    by (simp add: UNICODE_CARRIAGERETURN_def)
  have "handleChar spec_env UNICODE_CARRIAGERETURN 0 (spec_state [0x61, 0x62] 0 0x2000 5 None)
     = Inr (True, spec_state [0x0D, 0x61, 0x62] 1 0x2000 5 None)"
    using handleChar_wakeup [of UNICODE_CARRIAGERETURN "spec_state [0x61, 0x62] 0 0x2000 5 None" spec_env 0] b
    by (simp add: spec_state_def flush_clean UNICODE_CARRIAGERETURN_def)
  then show ?thesis
    by (simp add: spec_state_def processedInput_def IsFlagSet_def ENABLE_PROCESSED_INPUT_def)
qed

text \<open>
  C4 (amended): unless bit 13 of \<^verbatim>\<open>ctrlWakeupMask\<close> is set, a carriage return
  appends "\r\n" if processed input is enabled and "\r" otherwise, sets the caret
  to the end of the buffer, marks the buffer dirty and commits.
\<close>

theorem carriage_return_commits:
  "\<not> bit (ctrlWakeupMask s) 13 \<Longrightarrow>
   handleChar env UNICODE_CARRIAGERETURN modifiers s =
     Inr (True, s\<lparr>buffer := buffer s @ (if processedInput s
                                          then [UNICODE_CARRIAGERETURN, UNICODE_LINEFEED]
                                          else [UNICODE_CARRIAGERETURN]),
                    bufferCursor := length (buffer s) + (if processedInput s then 2 else 1),
                    bufferDirty := True\<rparr>)"
  by (rule handleChar_return)

theorem carriage_return_commits_witness:
  "\<not> bit (ctrlWakeupMask (spec_state [0x68, 0x69] 2 0 5 None)) 13
   \<and> handleChar spec_env UNICODE_CARRIAGERETURN 0 (spec_state [0x68, 0x69] 2 0 5 None)
       = Inr (True, (spec_state [0x68, 0x69, 0x0D, 0x0A] 4 0 5 None)\<lparr>bufferDirty := True\<rparr>)"
  using carriage_return_commits [of "spec_state [0x68, 0x69] 2 0 5 None" spec_env 0]
  by (simp add: spec_state_def processedInput_def IsFlagSet_def const_defs)




text \<open>
  C6: in every state a read can reach the popup stack holds at most two popups,
  and when it holds two, the lower one is a \<^verbatim>\<open>CommandList\<close> and the upper one a
  \<^verbatim>\<open>CommandNumber\<close>.
\<close>

theorem popup_stack_invariant:
  "reachable env s \<Longrightarrow> popupStackOk (map kind (popups s))"
  by (rule reachable_stack)

theorem popup_stack_invariant_witness:
  "reachable spec_env ((spec_state [] 0 0 5 (Some spec_hist3))
                         \<lparr>popups := [spec_list_popup, spec_number_popup]\<rparr>)
   \<and> map kind (popups ((spec_state [] 0 0 5 (Some spec_hist3))
                          \<lparr>popups := [spec_list_popup, spec_number_popup]\<rparr>))
       = [CommandList, CommandNumber]
   \<and> popupStackOk (map kind (popups ((spec_state [] 0 0 5 (Some spec_hist3))
                          \<lparr>popups := [spec_list_popup, spec_number_popup]\<rparr>)))"
  using popup_stack_invariant [OF spec_reachable_two] spec_reachable_two
  by (simp add: spec_list_popup_def spec_number_popup_def)

text \<open>
  C7 (the code at the failing input): with no digit typed in the
  \<^verbatim>\<open>CommandNumber\<close> popup, Enter makes \<^verbatim>\<open>std::stoi\<close> parse the empty string. The
  exception leaves the handler and the loop: the buffer is not replaced and the
  popup is not dismissed. Here F9 opens the popup and Enter follows.
\<close>

theorem command_number_empty_enter_throws:
  "readCharInputLoop spec_env (spec_state [] 0 0 5 (Some spec_hist3))
     [KeyEvent VK_F9 True 0, KeyEvent UNICODE_CARRIAGERETURN False 0] = Inl InvalidArgument"
  by (simp only: readCharInputLoop.simps spec_step_F9 spec_step_enter_empty
        sum.case prod.case if_False)



text \<open>
  C9: an editing key never completes the read. The loop goes on after
  \<^verbatim>\<open>_handleVkey\<close> whatever the key is; for F6 with bit 0x1a set in
  \<^verbatim>\<open>ctrlWakeupMask\<close> the character 0x1a is inserted and \<^verbatim>\<open>controlKeyState\<close> is
  overwritten as in the wake-up branch of \<^verbatim>\<open>_handleChar\<close>, and the loop goes on
  with the next event.
\<close>

theorem vkey_never_commits:
  "popups s = [] \<Longrightarrow>
     (\<forall>d s'. processEvent env (KeyEvent vkey True m) s = Inr (d, s') \<longrightarrow> \<not> d)
     \<and> (bit (ctrlWakeupMask s) 26 \<and> bufferCursor s \<le> length (buffer s) \<longrightarrow>
          readCharInputLoop env s (KeyEvent VK_F6 True m # evs) =
            readCharInputLoop env
              ((flushBuffer env s)
                 \<lparr>buffer := take (bufferCursor s) (buffer s) @ [0x1a]
                              @ drop (bufferCursor s) (buffer s),
                  bufferCursor := bufferCursor s + 1,
                  controlKeyState := m\<rparr>) evs)"
  using processEvent_vkey_continues [of s env vkey m]
  by (auto simp add: processEvent_F6_wakeup)

theorem vkey_never_commits_witness:
  "popups (spec_state [0x61] 1 0x4000000 5 None) = []
   \<and> bit (ctrlWakeupMask (spec_state [0x61] 1 0x4000000 5 None)) 26
   \<and> bufferCursor (spec_state [0x61] 1 0x4000000 5 None)
       \<le> length (buffer (spec_state [0x61] 1 0x4000000 5 None))
   \<and> processEvent spec_env (KeyEvent VK_F6 True 9) (spec_state [0x61] 1 0x4000000 5 None)
       = Inr (False, (spec_state [0x61, 0x1a] 2 0x4000000 5 None)\<lparr>controlKeyState := 9\<rparr>)
   \<and> readCharInputLoop spec_env (spec_state [0x61] 1 0x4000000 5 None) [KeyEvent VK_F6 True 9]
       = Inr (False, (spec_state [0x61, 0x1a] 2 0x4000000 5 None)\<lparr>controlKeyState := 9\<rparr>)"
proof -
  have b: "bit (0x4000000 :: 32 word) (26 :: nat)" by simp
  have f: "flushBuffer spec_env (spec_state [0x61] 1 0x4000000 5 None)
             = spec_state [0x61] 1 0x4000000 5 None"
    by (simp add: flush_clean)
  have e: "processEvent spec_env (KeyEvent VK_F6 True 9) (spec_state [0x61] 1 0x4000000 5 None)
       = Inr (False, (spec_state [0x61, 0x1a] 2 0x4000000 5 None)\<lparr>controlKeyState := 9\<rparr>)"
    using b by (simp add: processEvent_F6_wakeup flush_clean) (simp add: spec_state_def)
  from vkey_never_commits [of "spec_state [0x61] 1 0x4000000 5 None" spec_env VK_F6 9 "[]"] b f e
  show ?thesis by (simp add: spec_state_def)
qed

text \<open>
  C10: in the \<^verbatim>\<open>CopyToChar\<close> popup, a character that does not occur in the last
  command of the history at or after the caret leaves the buffer and the caret as
  they are and dismisses the popup stack.
\<close>

theorem copy_to_char_not_found:
  "popups s \<noteq> [] \<Longrightarrow> kind (last (popups s)) = CopyToChar \<Longrightarrow> history s = Some h \<Longrightarrow>
   wch \<notin> set (drop (bufferCursor s) (GetLastCommand (hist env) h)) \<Longrightarrow>
     popupHandleCopyToCharInput env wch 0 s = Inr (popupsDone env s)
     \<and> popupHandleInput env wch 0 m s = Inr (False, popupsDone env s)
     \<and> buffer (popupsDone env s) = buffer s
     \<and> bufferCursor (popupsDone env s) = bufferCursor s
     \<and> popups (popupsDone env s) = []"
  by (simp add: copyToChar_not_found popupHandleInput_def)

theorem copy_to_char_not_found_witness:
  "popups ((spec_state [0x61] 0 0 5 (Some spec_hist3))\<lparr>popups := [spec_copy_popup]\<rparr>) \<noteq> []
   \<and> kind (last (popups ((spec_state [0x61] 0 0 5 (Some spec_hist3))\<lparr>popups := [spec_copy_popup]\<rparr>)))
       = CopyToChar
   \<and> history ((spec_state [0x61] 0 0 5 (Some spec_hist3))\<lparr>popups := [spec_copy_popup]\<rparr>)
       = Some spec_hist3
   \<and> 0x7A \<notin> set (drop (bufferCursor ((spec_state [0x61] 0 0 5 (Some spec_hist3))
                                         \<lparr>popups := [spec_copy_popup]\<rparr>))
                      (GetLastCommand (hist spec_env) spec_hist3))
   \<and> popupHandleInput spec_env 0x7A 0 0
         ((spec_state [0x61] 0 0 5 (Some spec_hist3))\<lparr>popups := [spec_copy_popup]\<rparr>)
       = Inr (False, spec_state [0x61] 0 0 5 (Some spec_hist3))"
proof -
  have nf: "0x7A \<notin> set (drop (bufferCursor ((spec_state [0x61] 0 0 5 (Some spec_hist3))
                                         \<lparr>popups := [spec_copy_popup]\<rparr>))
                      (GetLastCommand (hist spec_env) spec_hist3))"
    by (simp add: spec_ops spec_hist3_def)
  have k: "kind (last (popups ((spec_state [0x61] 0 0 5 (Some spec_hist3))\<lparr>popups := [spec_copy_popup]\<rparr>)))
       = CopyToChar"
    by (simp add: spec_copy_popup_def)
  have d: "popupsDone spec_env ((spec_state [0x61] 0 0 5 (Some spec_hist3))\<lparr>popups := [spec_copy_popup]\<rparr>)
             = spec_state [0x61] 0 0 5 (Some spec_hist3)"
    by (simp add: spec_popupsDone spec_state_def)
  from copy_to_char_not_found [OF _ k _ nf, of 0] k nf d show ?thesis by simp
qed

end
